theory Spec2Isabelle
  imports Main
begin

section \<open>Values of the program\<close>

text \<open>
  The application is orchestration code over external services (a PDF reader, a text
  splitter, an embedding service, a vector store, a language model, the file system).
  The embedding keeps the control flow of the Python methods as it is written and takes
  the behaviour of every external service as a parameter (the record \<open>env\<close> below), so
  that a theorem holds for whatever the services answer.

  Document text (PDF pages, chunks) is a list of Unicode code points, since the code
  inspects its characters (\<open>str.strip\<close>). Messages, names and prompts are HOL strings;
  the code only compares, concatenates and forwards them.
\<close>

type_synonym ustring = "nat list"

type_synonym bytes = "nat list"

text \<open>
  An exception, with the message \<open>str(e)\<close> gives. Every handler of the application is
  \<open>except Exception\<close> (or a bare \<open>except\<close>) and reads the message only, so the class is
  kept only to name what is raised: the two classes the code raises itself, the errors
  Python raises for a method call on \<open>None\<close>, an index out of range and a missing
  key, and the error of a file operation. Failures of the services are values of the
  same type. Interpreter signals that are not \<open>Exception\<close>s (a keyboard interrupt) are
  outside the model.
\<close>

datatype exn =
    Exception string
  | ValueError string
  | AttributeError string
  | IndexError string
  | KeyError string
  | OSError string

fun str_exn :: "exn \<Rightarrow> string" where
  "str_exn (Exception m) = m"
| "str_exn (ValueError m) = m"
| "str_exn (AttributeError m) = m"
| "str_exn (IndexError m) = m"
| "str_exn (KeyError m) = m"
| "str_exn (OSError m) = m"

datatype pyfloat = PyFloat int int

datatype document = Document ustring

datatype embeddings = AzureOpenAIEmbeddings

datatype pinecone = Pinecone

datatype llm = AzureChatOpenAI | HuggingFaceEndpoint

datatype vectorstore = PineconeVectorStore string

datatype message = HumanMessage string | AIMessage string

subsection \<open>Strings\<close>

text \<open>
  \<open>str.isspace\<close> of one code point: the white space of Unicode as CPython lists it.
\<close>

definition isspace :: "nat \<Rightarrow> bool" where
  "isspace c \<longleftrightarrow>
     (9 \<le> c \<and> c \<le> 13) \<or> (28 \<le> c \<and> c \<le> 32) \<or> c = 133 \<or> c = 160 \<or> c = 5760 \<or>
     (8192 \<le> c \<and> c \<le> 8202) \<or> c = 8232 \<or> c = 8233 \<or> c = 8239 \<or> c = 8287 \<or>
     c = 12288"

definition strip :: "ustring \<Rightarrow> ustring" where
  "strip s = rev (dropWhile isspace (rev (dropWhile isspace s)))"

text \<open>\<open>sep.join(xs)\<close>.\<close>

fun join :: "'a list \<Rightarrow> 'a list list \<Rightarrow> 'a list" where
  "join sep [] = []"
| "join sep [x] = x"
| "join sep (x # y # ys) = x @ sep @ join sep (y # ys)"

text \<open>\<open>str(n)\<close> of a natural number, as an f-string formats \<open>len(...)\<close>.\<close>

definition digit_char :: "nat \<Rightarrow> char" where
  "digit_char d = ''0123456789'' ! d"

function str_nat :: "nat \<Rightarrow> string" where
  "str_nat n = (if n < 10 then [digit_char n] else str_nat (n div 10) @ [digit_char (n mod 10)])"
  by pat_completeness auto
termination
  by (relation "measure (\<lambda>n. n)") auto

declare str_nat.simps [simp del]

section \<open>Configuration (config.py)\<close>

definition PINECONE_CLOUD :: string where
  "PINECONE_CLOUD = ''aws''"

definition PINECONE_REGION :: string where
  "PINECONE_REGION = ''us-east-1''"

definition TEXT_CHUNK_SIZE :: nat where
  "TEXT_CHUNK_SIZE = 1000"

definition TEXT_CHUNK_OVERLAP :: nat where
  "TEXT_CHUNK_OVERLAP = 200"

definition TEXT_SEPARATORS :: "ustring list" where
  "TEXT_SEPARATORS = [[10, 10], [10], [46, 32], [33, 32], [63, 32], [32], []]"

definition VECTOR_DIMENSION :: nat where
  "VECTOR_DIMENSION = 1536"

definition VECTOR_METRIC :: string where
  "VECTOR_METRIC = ''cosine''"

definition RETRIEVAL_K :: nat where
  "RETRIEVAL_K = 3"

definition SYSTEM_PROMPTS :: "(string \<times> string) list" where
  "SYSTEM_PROMPTS =
    [(''Helpful Assistant (Default)'',
        ''You are a helpful AI assistant. Provide clear, concise, and accurate responses.''),
     (''Technical Expert'',
        ''You are a technical expert. Provide detailed, accurate technical information and explanations.''),
     (''Creative Writer'',
        ''You are a creative writer. Respond with imaginative, engaging, and creative content.''),
     (''Formal Business Assistant'',
        ''You are a formal business assistant. Provide professional, concise, and business-appropriate responses.''),
     (''Casual Friendly Helper'',
        ''You are a casual, friendly helper. Respond in a warm, conversational tone.'')]"

section \<open>State, external services and effects\<close>

text \<open>
  The objects of the application. \<open>PDFProcessor.model_manager\<close> is a reference to the
  \<open>ModelManager\<close> of the \<open>ChatManager\<close> that owns it, so the record of the processor
  does not repeat it: the methods read it from the chat manager.
\<close>

record model_manager =
  current_model :: "llm option"
  model_type :: "string option"
  embeddings :: "embeddings option"
  pc :: "pinecone option"

record pdf_processor =
  vectorstore :: "vectorstore option"
  current_index_name :: "string option"

record chat_manager =
  model_manager :: model_manager
  pdf_processor :: pdf_processor
  memory :: "message list"

text \<open>
  What \<open>RetrievalQA.from_chain_type\<close> is given: the model, the vector store behind the
  retriever, the retriever's \<open>search_type\<close> and \<open>k\<close>, and the prompt template of
  \<open>chain_type_kwargs\<close> (\<open>None\<close> when the call passes none). What \<open>invoke\<close> returns:
  the keys \<open>result\<close> and \<open>source_documents\<close> (which the code reads with a default).
\<close>

record qa_chain =
  qa_llm :: "llm option"
  qa_store :: vectorstore
  qa_search_type :: "string option"
  qa_k :: nat
  qa_prompt :: "string option"

record qa_result =
  result :: string
  source_documents :: "document list option"

datatype prompt =
    ChatPromptTemplate string string
  | PromptTemplate string

text \<open>Every call the application makes to a service, in the order it makes them.\<close>

datatype event =
    StatusCallback string
  | NamedTemporaryFile string
  | PdfReader string
  | SplitText nat nat "ustring list" ustring
  | EmbedQuery ustring
  | ListIndexes
  | CreateIndex string nat string string string
  | DescribeIndex string
  | Sleep nat
  | FromDocuments "document list" string
  | Unlink string
  | FromChainType qa_chain
  | QAInvoke qa_chain "(string \<times> string) list"
  | LLMChain "llm option" prompt
  | LLMInvoke "llm option" prompt "(string \<times> string) list"

record state =
  manager :: chat_manager
  files :: "string \<rightharpoonup> bytes"
  trace :: "event list"

text \<open>
  The services, as the answers they give. \<open>Inl\<close> (or \<open>Some\<close> for a call that returns
  nothing) is the exception the call raises. \<open>describe_index\<close> is asked repeatedly, so
  its answer depends on the number of the poll; \<open>llm_invoke\<close> reads the conversation
  memory and leaves a new one.
\<close>

record env =
  tmp_file :: "exn + string"
  tmp_write :: "string \<Rightarrow> bytes \<Rightarrow> exn option"
  os_unlink :: "string \<Rightarrow> exn option"
  pdf_pages :: "bytes \<Rightarrow> exn + ustring option list"
  split_text :: "nat \<Rightarrow> nat \<Rightarrow> ustring list \<Rightarrow> ustring \<Rightarrow> exn + ustring list"
  embed_query :: "ustring \<Rightarrow> exn + pyfloat list"
  list_indexes :: "exn + string list"
  create_index :: "string \<Rightarrow> nat \<Rightarrow> string \<Rightarrow> string \<Rightarrow> string \<Rightarrow> exn option"
  describe_index :: "string \<Rightarrow> nat \<Rightarrow> exn + bool"
  from_documents :: "document list \<Rightarrow> string \<Rightarrow> exn option"
  from_chain_type :: "qa_chain \<Rightarrow> exn option"
  qa_invoke :: "qa_chain \<Rightarrow> (string \<times> string) list \<Rightarrow> exn + qa_result"
  llm_chain :: "llm option \<Rightarrow> prompt \<Rightarrow> exn option"
  llm_invoke ::
    "llm option \<Rightarrow> prompt \<Rightarrow> message list \<Rightarrow> (string \<times> string) list \<Rightarrow>
      (exn + string) \<times> message list"

subsection \<open>Computations that change the state and may raise\<close>

type_synonym 'a io = "state \<Rightarrow> (exn + 'a) \<times> state"

definition io_return :: "'a \<Rightarrow> 'a io" where
  "io_return x = (\<lambda>s. (Inr x, s))"

definition io_raise :: "exn \<Rightarrow> 'a io" where
  "io_raise x = (\<lambda>s. (Inl x, s))"

definition io_bind :: "'a io \<Rightarrow> ('a \<Rightarrow> 'b io) \<Rightarrow> 'b io" where
  "io_bind m f = (\<lambda>s. case m s of (Inl x, s') \<Rightarrow> (Inl x, s') | (Inr a, s') \<Rightarrow> f a s')"

definition io_get :: "state io" where
  "io_get = (\<lambda>s. (Inr s, s))"

text \<open>\<open>try: m except Exception as x: h x\<close>.\<close>

definition try_except :: "'a io \<Rightarrow> (exn \<Rightarrow> 'a io) \<Rightarrow> 'a io" where
  "try_except m h = (\<lambda>s. case m s of (Inl x, s') \<Rightarrow> h x s' | (Inr a, s') \<Rightarrow> (Inr a, s'))"

text \<open>
  \<open>try: m finally: fin\<close>: \<open>fin\<close> runs whatever \<open>m\<close> did; the outcome is that of \<open>m\<close>
  unless \<open>fin\<close> raises.
\<close>

definition try_finally :: "'a io \<Rightarrow> unit io \<Rightarrow> 'a io" where
  "try_finally m fin =
     (\<lambda>s. case m s of (r, s') \<Rightarrow>
        (case fin s' of (Inl x, s'') \<Rightarrow> (Inl x, s'') | (Inr u, s'') \<Rightarrow> (r, s'')))"

text \<open>A call to a service: it is recorded, and returns or raises what the service answers.\<close>

definition call :: "event \<Rightarrow> exn + 'a \<Rightarrow> 'a io" where
  "call ev r = (\<lambda>s. (r, s\<lparr>trace := trace s @ [ev]\<rparr>))"

definition call_unit :: "event \<Rightarrow> exn option \<Rightarrow> unit io" where
  "call_unit ev r = call ev (case r of None \<Rightarrow> Inr () | Some x \<Rightarrow> Inl x)"

text \<open>\<open>if status_callback: status_callback(msg)\<close>.\<close>

definition notify :: "(string \<Rightarrow> exn option) option \<Rightarrow> string \<Rightarrow> unit io" where
  "notify status_callback msg =
     (case status_callback of
        None \<Rightarrow> io_return ()
      | Some cb \<Rightarrow> call_unit (StatusCallback msg) (cb msg))"

section \<open>PDF processing (pdf_processor.py)\<close>

text \<open>
  The error of a method call on an attribute that is still \<open>None\<close> (the application
  goes on when \<open>initialize_components\<close> fails, which leaves \<open>embeddings\<close> and \<open>pc\<close>
  unset).
\<close>

definition quoted :: "string \<Rightarrow> string" where
  "quoted s = [CHR 0x27] @ s @ [CHR 0x27]"

definition none_has_no_attribute :: "string \<Rightarrow> exn" where
  "none_has_no_attribute name =
     AttributeError (quoted ''NoneType'' @ '' object has no attribute '' @ quoted name)"

subsection \<open>extract_text_from_pdf\<close>

text \<open>
  \<open>PdfReader(pdf_path)\<close> and \<open>extract_text()\<close> of every page: the reader opens the
  file the path names, and the pages are those of its bytes.
\<close>

definition read_pages :: "env \<Rightarrow> string \<Rightarrow> ustring option list io" where
  "read_pages e pdf_path =
     io_bind io_get (\<lambda>s.
       case files s pdf_path of
         None \<Rightarrow> call (PdfReader pdf_path) (Inl (OSError ''No such file or directory''))
       | Some b \<Rightarrow> call (PdfReader pdf_path) (pdf_pages e b))"

text \<open>The filter \<open>if p and p.strip()\<close> of the comprehension.\<close>

fun nonempty_page :: "ustring option \<Rightarrow> bool" where
  "nonempty_page None = False"
| "nonempty_page (Some p) = (p \<noteq> [] \<and> strip p \<noteq> [])"

fun strip_page :: "ustring option \<Rightarrow> ustring" where
  "strip_page None = []"
| "strip_page (Some p) = strip p"

definition extract_text_from_pdf :: "env \<Rightarrow> string \<Rightarrow> (ustring \<times> nat) io" where
  "extract_text_from_pdf e pdf_path =
     try_except
       (io_bind (read_pages e pdf_path) (\<lambda>pages0.
          let pages = map strip_page (filter nonempty_page pages0);
              text = join [10] pages
          in if strip text = []
             then io_raise (ValueError ''No text could be extracted from the PDF file.'')
             else io_return (text, length pages)))
       (\<lambda>x. io_raise (Exception (''Error reading PDF: '' @ str_exn x)))"

subsection \<open>split_text_into_chunks\<close>

text \<open>
  The splitter is the library's \<open>RecursiveCharacterTextSplitter\<close>; the method hands it
  the configured size, overlap and separators and returns its chunks unchanged.
\<close>

definition split_text_into_chunks :: "env \<Rightarrow> ustring \<Rightarrow> ustring list io" where
  "split_text_into_chunks e text =
     try_except
       (io_bind
          (call (SplitText TEXT_CHUNK_SIZE TEXT_CHUNK_OVERLAP TEXT_SEPARATORS text)
             (split_text e TEXT_CHUNK_SIZE TEXT_CHUNK_OVERLAP TEXT_SEPARATORS text))
          (\<lambda>texts.
             if texts = []
             then io_raise (ValueError ''No text chunks were created from the PDF.'')
             else io_return texts))
       (\<lambda>x. io_raise (Exception (''Error splitting text: '' @ str_exn x)))"

subsection \<open>test_embeddings\<close>

definition test_embeddings :: "env \<Rightarrow> ustring \<Rightarrow> nat io" where
  "test_embeddings e sample_text =
     try_except
       (io_bind io_get (\<lambda>s.
          case embeddings (model_manager (manager s)) of
            None \<Rightarrow> io_raise (none_has_no_attribute ''embed_query'')
          | Some client \<Rightarrow>
              io_bind (call (EmbedQuery sample_text) (embed_query e sample_text))
                (\<lambda>vector. io_return (length vector))))
       (\<lambda>x. io_raise (Exception (''Embedding test failed: '' @ str_exn x)))"

subsection \<open>setup_pinecone_index\<close>

text \<open>
  The loop \<open>for i in range(30): ... else: raise\<close>, at poll \<open>i\<close> with \<open>n\<close> polls left:
  \<open>break\<close> leaves it, and the \<open>else\<close> branch runs when the range is used up.
\<close>

fun wait_until_ready :: "env \<Rightarrow> string \<Rightarrow> nat \<Rightarrow> nat \<Rightarrow> unit io" where
  "wait_until_ready e index_name i 0 =
     io_raise (Exception ''Pinecone index creation timeout'')"
| "wait_until_ready e index_name i (Suc n) =
     io_bind (call (DescribeIndex index_name) (describe_index e index_name i)) (\<lambda>ready.
       if ready then io_return ()
       else io_bind (call (Sleep 1) (Inr ()))
              (\<lambda>u. wait_until_ready e index_name (Suc i) n))"

definition setup_pinecone_index :: "env \<Rightarrow> string \<Rightarrow> (bool \<times> string) io" where
  "setup_pinecone_index e index_name =
     try_except
       (io_bind io_get (\<lambda>s.
          case pc (model_manager (manager s)) of
            None \<Rightarrow> io_raise (none_has_no_attribute ''list_indexes'')
          | Some client \<Rightarrow>
              io_bind (call ListIndexes (list_indexes e)) (\<lambda>existing_indexes.
                if index_name \<notin> set existing_indexes then
                  io_bind
                    (call_unit
                       (CreateIndex index_name VECTOR_DIMENSION VECTOR_METRIC
                          PINECONE_CLOUD PINECONE_REGION)
                       (create_index e index_name VECTOR_DIMENSION VECTOR_METRIC
                          PINECONE_CLOUD PINECONE_REGION))
                    (\<lambda>u. io_bind (wait_until_ready e index_name 0 30)
                       (\<lambda>u. io_return (True, ''created'')))
                else io_return (True, ''existing''))))
       (\<lambda>x. io_raise (Exception (''Error setting up Pinecone index: '' @ str_exn x)))"

subsection \<open>create_documents, upload_to_pinecone\<close>

definition create_documents :: "ustring list \<Rightarrow> document list" where
  "create_documents text_chunks = map Document text_chunks"

definition set_vectorstore :: "string \<Rightarrow> unit io" where
  "set_vectorstore index_name =
     (\<lambda>s. (Inr (),
        s\<lparr>manager := (manager s)\<lparr>pdf_processor :=
            \<lparr>vectorstore = Some (PineconeVectorStore index_name),
             current_index_name = Some index_name\<rparr>\<rparr>\<rparr>))"

definition upload_to_pinecone :: "env \<Rightarrow> document list \<Rightarrow> string \<Rightarrow> bool io" where
  "upload_to_pinecone e documents index_name =
     try_except
       (io_bind
          (call_unit (FromDocuments documents index_name)
             (from_documents e documents index_name))
          (\<lambda>u. io_bind (set_vectorstore index_name) (\<lambda>u. io_return True)))
       (\<lambda>x. io_raise (Exception (''Failed to upload to Pinecone: '' @ str_exn x)))"

subsection \<open>process_pdf\<close>

text \<open>
  \<open>with tempfile.NamedTemporaryFile(delete=False, suffix=".pdf") as tmp_file\<close>: the file
  is created, the upload written to it, and it is closed and kept. When the write fails
  the file is there all the same (what it holds then is not modelled). These three lines
  stand before the \<open>try\<close>.
\<close>

definition save_upload :: "env \<Rightarrow> bytes \<Rightarrow> string io" where
  "save_upload e uploaded_file =
     (\<lambda>s. case tmp_file e of
        Inl x \<Rightarrow> (Inl x, s)
      | Inr pdf_path \<Rightarrow>
          (let s' = s\<lparr>trace := trace s @ [NamedTemporaryFile pdf_path]\<rparr> in
           case tmp_write e pdf_path uploaded_file of
             Some x \<Rightarrow> (Inl x, s'\<lparr>files := (files s')(pdf_path \<mapsto> [])\<rparr>)
           | None \<Rightarrow> (Inr pdf_path, s'\<lparr>files := (files s')(pdf_path \<mapsto> uploaded_file)\<rparr>)))"

text \<open>\<open>texts[0]\<close>.\<close>

fun first_chunk :: "ustring list \<Rightarrow> ustring io" where
  "first_chunk [] = io_raise (IndexError ''list index out of range'')"
| "first_chunk (t # ts) = io_return t"

text \<open>The body of the \<open>try\<close>.\<close>

definition process_pdf_try ::
  "env \<Rightarrow> string \<Rightarrow> string \<Rightarrow> (string \<Rightarrow> exn option) option \<Rightarrow> (bool \<times> string) io" where
  "process_pdf_try e pdf_path index_name status_callback =
     io_bind (notify status_callback ''Reading PDF document...'') (\<lambda>u.
     io_bind (extract_text_from_pdf e pdf_path) (\<lambda>(text, num_pages).
     io_bind (notify status_callback
       (''PDF Read Successfully - '' @ str_nat num_pages @ '' pages'')) (\<lambda>u.
     io_bind (notify status_callback ''Splitting text into chunks...'') (\<lambda>u.
     io_bind (split_text_into_chunks e text) (\<lambda>texts.
     io_bind (notify status_callback
       (''Created '' @ str_nat (length texts) @ '' text chunks'')) (\<lambda>u.
     io_bind (notify status_callback ''Testing embeddings...'') (\<lambda>u.
     io_bind (first_chunk texts) (\<lambda>sample.
     io_bind (test_embeddings e sample) (\<lambda>vector_dim.
     io_bind (notify status_callback
       (''Vector Dimension: '' @ str_nat vector_dim)) (\<lambda>u.
     io_bind (notify status_callback ''Setting up Pinecone index...'') (\<lambda>u.
     io_bind (setup_pinecone_index e index_name) (\<lambda>(success, index_status).
     io_bind (notify status_callback
       ((if index_status = ''created'' then ''Created new'' else ''Using existing'')
          @ '' Pinecone index: '' @ index_name)) (\<lambda>u.
     io_bind (notify status_callback ''Creating document vectors...'') (\<lambda>u.
     let documents = create_documents texts in
     io_bind (notify status_callback
       (''Prepared '' @ str_nat (length documents) @ '' documents'')) (\<lambda>u.
     io_bind (notify status_callback ''Uploading to Pinecone...'') (\<lambda>u.
     io_bind (upload_to_pinecone e documents index_name) (\<lambda>uploaded.
     io_bind (notify status_callback ''Vector Store Ready in Pinecone!'') (\<lambda>u.
     io_return (True,
       ''PDF processed successfully! Created '' @ str_nat (length documents)
         @ '' chunks from '' @ str_nat num_pages @ '' pages.'')))))))))))))))))))"

text \<open>
  The \<open>finally\<close> block: \<open>if os.path.exists(pdf_path): try: os.unlink(pdf_path)
  except: pass\<close>.
\<close>

definition unlink :: "env \<Rightarrow> string \<Rightarrow> unit io" where
  "unlink e path =
     (\<lambda>s. case os_unlink e path of
        Some x \<Rightarrow> (Inl x, s\<lparr>trace := trace s @ [Unlink path]\<rparr>)
      | None \<Rightarrow> (Inr (), s\<lparr>trace := trace s @ [Unlink path], files := (files s)(path := None)\<rparr>))"

definition cleanup :: "env \<Rightarrow> string \<Rightarrow> unit io" where
  "cleanup e pdf_path =
     io_bind io_get (\<lambda>s.
       if pdf_path \<in> dom (files s)
       then try_except (unlink e pdf_path) (\<lambda>x. io_return ())
       else io_return ())"

definition process_pdf ::
  "env \<Rightarrow> bytes \<Rightarrow> string \<Rightarrow> (string \<Rightarrow> exn option) option \<Rightarrow> (bool \<times> string) io" where
  "process_pdf e uploaded_file index_name status_callback =
     io_bind (save_upload e uploaded_file) (\<lambda>pdf_path.
       try_finally
         (try_except (process_pdf_try e pdf_path index_name status_callback)
            (\<lambda>x. io_return (False, ''Error processing PDF: '' @ str_exn x)))
         (cleanup e pdf_path))"

section \<open>Answering (chat_manager.py, model_manager.py)\<close>

definition is_initialized :: "model_manager \<Rightarrow> bool" where
  "is_initialized mm \<longleftrightarrow> current_model mm \<noteq> None"

definition nl :: string where
  "nl = [CHR 0x0A]"

text \<open>The template of \<open>create_rag_chain\<close>, with its three input variables.\<close>

definition prompt_template :: string where
  "prompt_template =
     ''{system_prompt}'' @ nl @ nl @
     ''Use the following pieces of context to answer the question at the end.'' @ nl @
     ''If you don't know the answer based on the context, just say that you don't know, don't try to make up an answer.''
       @ nl @ nl @
     ''Context: {context}'' @ nl @ nl @
     ''Question: {question}'' @ nl @ nl @
     ''Answer: ''"

text \<open>
  \<open>create_rag_chain\<close> returns the closure \<open>rag_wrapper\<close> over the chain it has built and
  the system prompt; the embedding returns the chain, and \<open>rag_wrapper\<close> takes both.
\<close>

definition create_rag_chain :: "env \<Rightarrow> string \<Rightarrow> qa_chain io" where
  "create_rag_chain e system_prompt =
     io_bind io_get (\<lambda>s.
       case vectorstore (pdf_processor (manager s)) of
         None \<Rightarrow>
           io_raise (ValueError ''No vector store available. Please process a PDF first.'')
       | Some store \<Rightarrow>
           (let qa = \<lparr>qa_llm = current_model (model_manager (manager s)),
                      qa_store = store,
                      qa_search_type = Some ''similarity'',
                      qa_k = RETRIEVAL_K,
                      qa_prompt = Some prompt_template\<rparr>
            in io_bind (call_unit (FromChainType qa) (from_chain_type e qa))
                 (\<lambda>u. io_return qa)))"

definition rag_wrapper ::
  "env \<Rightarrow> qa_chain \<Rightarrow> string \<Rightarrow> (string \<times> string) list \<Rightarrow> qa_result io" where
  "rag_wrapper e qa system_prompt inputs =
     (let query = (case map_of inputs ''query'' of None \<Rightarrow> [] | Some q \<Rightarrow> q);
          args = [(''query'', query), (''system_prompt'', system_prompt)]
      in call (QAInvoke qa args) (qa_invoke e qa args))"

text \<open>\<open>result["result"], result.get("source_documents", [])\<close>.\<close>

definition answer_of :: "qa_result \<Rightarrow> string \<times> document list" where
  "answer_of r = (result r, case source_documents r of None \<Rightarrow> [] | Some ds \<Rightarrow> ds)"

text \<open>The first attempt of the RAG branch: the body of its inner \<open>try\<close>.\<close>

definition rag_attempt :: "env \<Rightarrow> string \<Rightarrow> string \<Rightarrow> (string \<times> document list) io" where
  "rag_attempt e question system_prompt =
     io_bind (create_rag_chain e system_prompt) (\<lambda>chain.
     io_bind (rag_wrapper e chain system_prompt [(''query'', question)]) (\<lambda>r.
     io_return (answer_of r)))"

text \<open>
  The fallback of the RAG branch: a chain with the library's own prompt (no
  \<open>chain_type_kwargs\<close>, no \<open>search_type\<close>), invoked with the question alone.
\<close>

definition rag_fallback :: "env \<Rightarrow> string \<Rightarrow> (string \<times> document list) io" where
  "rag_fallback e question =
     io_bind io_get (\<lambda>s.
       case vectorstore (pdf_processor (manager s)) of
         None \<Rightarrow> io_raise (none_has_no_attribute ''as_retriever'')
       | Some store \<Rightarrow>
           (let qa_chain = \<lparr>qa_llm = current_model (model_manager (manager s)),
                            qa_store = store,
                            qa_search_type = None,
                            qa_k = RETRIEVAL_K,
                            qa_prompt = None\<rparr>
            in io_bind (call_unit (FromChainType qa_chain) (from_chain_type e qa_chain)) (\<lambda>u.
               io_bind (call (QAInvoke qa_chain [(''query'', question)])
                          (qa_invoke e qa_chain [(''query'', question)])) (\<lambda>r.
               io_return (answer_of r)))))"

definition create_conversation_chain :: "env \<Rightarrow> string \<Rightarrow> (llm option \<times> prompt) io" where
  "create_conversation_chain e system_prompt =
     io_bind io_get (\<lambda>s.
       let mm = model_manager (manager s);
           prompt =
             (if model_type mm = Some ''azure''
              then ChatPromptTemplate system_prompt ''{input}''
              else PromptTemplate
                     (system_prompt @ nl @ nl @ ''Question: {input}'' @ nl @ ''Answer:''))
       in io_bind (call_unit (LLMChain (current_model mm) prompt)
                     (llm_chain e (current_model mm) prompt))
            (\<lambda>u. io_return (current_model mm, prompt)))"

text \<open>
  \<open>chain.invoke({"input": question})["text"]\<close> of the conversation chain, which was
  built over \<open>self.memory\<close>.
\<close>

definition chain_invoke ::
  "env \<Rightarrow> llm option \<times> prompt \<Rightarrow> (string \<times> string) list \<Rightarrow> string io" where
  "chain_invoke e chain inputs =
     (\<lambda>s. case llm_invoke e (fst chain) (snd chain) (memory (manager s)) inputs of
        (r, memory') \<Rightarrow>
          (r, s\<lparr>manager := (manager s)\<lparr>memory := memory'\<rparr>,
                trace := trace s @ [LLMInvoke (fst chain) (snd chain) inputs]\<rparr>))"

definition conversation :: "env \<Rightarrow> string \<Rightarrow> string \<Rightarrow> (string \<times> document list) io" where
  "conversation e question system_prompt =
     io_bind (create_conversation_chain e system_prompt) (\<lambda>chain.
     io_bind io_get (\<lambda>s.
       if model_type (model_manager (manager s)) = Some ''azure''
       then io_bind (chain_invoke e chain [(''input'', question)]) (\<lambda>t. io_return (t, []))
       else io_bind (chain_invoke e chain [(''input'', question)]) (\<lambda>t. io_return (t, []))))"

definition get_response ::
  "env \<Rightarrow> string \<Rightarrow> string \<Rightarrow> bool \<Rightarrow> (string \<times> document list) io" where
  "get_response e question system_prompt use_rag =
     try_except
       (io_bind io_get (\<lambda>s.
          if \<not> is_initialized (model_manager (manager s))
          then io_return
                 (''No model initialized. Please select and initialize a model first.'', [])
          else if use_rag \<and> vectorstore (pdf_processor (manager s)) = None
          then io_return
                 (''RAG is enabled but no PDF has been processed. Please process a PDF first or disable RAG.'',
                  [])
          else if use_rag \<and> vectorstore (pdf_processor (manager s)) \<noteq> None
          then try_except (rag_attempt e question system_prompt)
                 (\<lambda>x. try_except (rag_fallback e question)
                    (\<lambda>fallback_error.
                       io_return (''RAG Error: '' @ str_exn fallback_error, [])))
          else conversation e question system_prompt))
       (\<lambda>x. io_return (''Error generating response: '' @ str_exn x, []))"

text \<open>\<open>self.memory.clear()\<close> empties the buffer of the conversation memory.\<close>

definition clear_memory :: "chat_manager \<Rightarrow> chat_manager" where
  "clear_memory cm = cm\<lparr>memory := []\<rparr>"

definition reset_system :: "chat_manager \<Rightarrow> chat_manager" where
  "reset_system cm =
     (clear_memory cm)
       \<lparr>pdf_processor := \<lparr>vectorstore = None, current_index_name = None\<rparr>,
        model_manager :=
          (model_manager cm)\<lparr>current_model := None, model_type := None\<rparr>\<rparr>"

section \<open>Session state (app.py, ui_components.py)\<close>

record chat_message =
  role :: string
  content :: string
  model :: "string option"
  rag_used :: "bool option"

record session_state =
  chat_manager :: chat_manager
  messages :: "chat_message list"
  system_prompt :: string
  use_rag :: bool
  selected_model_type :: string
  processed :: bool
  model_initialized :: bool

text \<open>
  \<open>render_system_prompt_selection\<close>, given what the two widgets return: the option of
  the select box and the text of the text area (read only when the option is
  \<open>Custom\<close>).
\<close>

definition selected_prompt :: "string \<Rightarrow> string \<Rightarrow> exn + string" where
  "selected_prompt system_prompt_option custom_text =
     (if system_prompt_option = ''Custom'' then Inr custom_text
      else case map_of SYSTEM_PROMPTS system_prompt_option of
             None \<Rightarrow> Inl (KeyError (quoted system_prompt_option))
           | Some p \<Rightarrow> Inr p)"

definition render_system_prompt_selection ::
  "session_state \<Rightarrow> string \<Rightarrow> string \<Rightarrow> exn + session_state" where
  "render_system_prompt_selection session system_prompt_option custom_text =
     (case selected_prompt system_prompt_option custom_text of
        Inl x \<Rightarrow> Inl x
      | Inr p \<Rightarrow>
          Inr (if p \<noteq> system_prompt session
               then session\<lparr>system_prompt := p,
                            messages := [],
                            chat_manager := clear_memory (chat_manager session)\<rparr>
               else session))"

section \<open>Vocabulary of the properties\<close>

text \<open>The calls that reach the embedding service: the probe and the upload.\<close>

fun calls_embedding :: "event \<Rightarrow> bool" where
  "calls_embedding (EmbedQuery t) = True"
| "calls_embedding (FromDocuments ds i) = True"
| "calls_embedding ev = False"

text \<open>
  An event is \<open>configured_create idx\<close> unless it is a \<open>create_index\<close> call for another
  name than \<open>idx\<close>, or with another dimension or metric than the configured ones.
\<close>

fun configured_create :: "string \<Rightarrow> event \<Rightarrow> bool" where
  "configured_create idx (CreateIndex n d m c r) =
     (n = idx \<and> d = VECTOR_DIMENSION \<and> m = VECTOR_METRIC)"
| "configured_create idx ev = True"

text \<open>
  \<open>steps P s s'\<close>: from \<open>s\<close> to \<open>s'\<close> the files are the same and the trace has grown by
  events that satisfy \<open>P\<close>. \<open>runs P m\<close>: that is all \<open>m\<close> does to the files and the trace,
  from every state.
\<close>

definition steps :: "(event \<Rightarrow> bool) \<Rightarrow> state \<Rightarrow> state \<Rightarrow> bool" where
  "steps P s s' \<longleftrightarrow>
     files s' = files s \<and> (\<exists>evs. trace s' = trace s @ evs \<and> list_all P evs)"

definition runs :: "(event \<Rightarrow> bool) \<Rightarrow> 'a io \<Rightarrow> bool" where
  "runs P m \<longleftrightarrow> (\<forall>s. steps P s (snd (m s)))"

text \<open>The state once the upload is saved under \<open>path\<close>.\<close>

definition saved :: "state \<Rightarrow> string \<Rightarrow> bytes \<Rightarrow> state" where
  "saved s path pdf =
     s\<lparr>trace := trace s @ [NamedTemporaryFile path], files := (files s)(path \<mapsto> pdf)\<rparr>"

text \<open>
  The chain of the first attempt of the RAG branch, built over the persona template, and
  the chain of its fallback, built with no prompt of the application's.
\<close>

definition persona_chain :: "state \<Rightarrow> vectorstore \<Rightarrow> qa_chain" where
  "persona_chain s store =
     \<lparr>qa_llm = current_model (model_manager (manager s)), qa_store = store,
      qa_search_type = Some ''similarity'', qa_k = RETRIEVAL_K,
      qa_prompt = Some prompt_template\<rparr>"

definition plain_chain :: "state \<Rightarrow> vectorstore \<Rightarrow> qa_chain" where
  "plain_chain s store =
     \<lparr>qa_llm = current_model (model_manager (manager s)), qa_store = store,
      qa_search_type = None, qa_k = RETRIEVAL_K, qa_prompt = None\<rparr>"

text \<open>\<open>k\<close> polls that found the index not ready, each followed by its sleep.\<close>

definition polls :: "string \<Rightarrow> nat \<Rightarrow> event list" where
  "polls idx k = concat (replicate k [DescribeIndex idx, Sleep 1])"

subsection \<open>Concrete inputs\<close>

text \<open>
  A session with an initialised Azure model and nothing ingested, and services that all
  answer: a PDF of four pages, two of them with text; an embedding of three components;
  no index yet, and the new index ready at the third poll. The chain with the persona
  template is refused, and the question-answering call fails.
\<close>

definition example_manager :: chat_manager where
  "example_manager =
     \<lparr>model_manager =
        \<lparr>current_model = Some AzureChatOpenAI, model_type = Some ''azure'',
         embeddings = Some AzureOpenAIEmbeddings, pc = Some Pinecone\<rparr>,
      pdf_processor = \<lparr>vectorstore = None, current_index_name = None\<rparr>,
      memory = [HumanMessage ''Hi'', AIMessage ''Hello'']\<rparr>"

definition example_state :: state where
  "example_state = \<lparr>manager = example_manager, files = Map.empty, trace = []\<rparr>"

definition example_env :: env where
  "example_env =
     \<lparr>tmp_file = Inr ''/tmp/tmpk3x9.pdf'',
      tmp_write = (\<lambda>path b. None),
      os_unlink = (\<lambda>path. None),
      pdf_pages = (\<lambda>b. Inr [Some [72, 105], Some [32, 10], None, Some [32, 72, 111, 32]]),
      split_text = (\<lambda>size overlap seps t. Inr [t]),
      embed_query = (\<lambda>t. Inr [PyFloat 1 0, PyFloat 2 0, PyFloat 3 0]),
      list_indexes = Inr [],
      create_index = (\<lambda>n d m c r. None),
      describe_index = (\<lambda>n i. Inr (2 \<le> i)),
      from_documents = (\<lambda>ds n. None),
      from_chain_type =
        (\<lambda>qa. case qa_prompt qa of
                None \<Rightarrow> None
              | Some t \<Rightarrow> Some (ValueError ''Missing some input keys'')),
      qa_invoke = (\<lambda>qa args. Inl (Exception ''Rate limit reached'')),
      llm_chain = (\<lambda>l p. None),
      llm_invoke = (\<lambda>l p m args. (Inr ''Hello'', m))\<rparr>"

text \<open>A progress callback that never raises.\<close>

definition quiet_callback :: "string \<Rightarrow> exn option" where
  "quiet_callback msg = None"

definition example_session :: session_state where
  "example_session =
     \<lparr>chat_manager = example_manager,
      messages =
        [\<lparr>role = ''user'', content = ''Hi'', model = None, rag_used = None\<rparr>,
         \<lparr>role = ''assistant'', content = ''Hello'', model = Some ''azure'',
          rag_used = Some False\<rparr>],
      system_prompt =
        ''You are a helpful AI assistant. Provide clear, concise, and accurate responses.'',
      use_rag = True,
      selected_model_type = ''azure'',
      processed = False,
      model_initialized = True\<rparr>"

text \<open>
  Variants: a PDF whose pages are all blank; a temporary file that cannot be removed; a
  disk that is full when the upload is written; an index that never gets ready; and the
  session once a PDF has been ingested.
\<close>

definition blank_env :: env where
  "blank_env = example_env\<lparr>pdf_pages := (\<lambda>b. Inr [Some [32, 10], None, Some []])\<rparr>"

definition locked_env :: env where
  "locked_env = example_env\<lparr>os_unlink := (\<lambda>path. Some (OSError ''Permission denied''))\<rparr>"

definition full_disk_env :: env where
  "full_disk_env =
     example_env\<lparr>tmp_write := (\<lambda>path b. Some (OSError ''No space left on device''))\<rparr>"

definition never_ready_env :: env where
  "never_ready_env = example_env\<lparr>describe_index := (\<lambda>n i. Inr False)\<rparr>"

definition populated_state :: state where
  "populated_state =
     example_state\<lparr>manager := example_manager\<lparr>pdf_processor :=
       \<lparr>vectorstore = Some (PineconeVectorStore ''pdf-chatbot-index''),
        current_index_name = Some ''pdf-chatbot-index''\<rparr>\<rparr>\<rparr>"

text \<open>
  The services of the example, with a question-answering call that succeeds.
\<close>

definition answering_env :: env where
  "answering_env =
     example_env\<lparr>qa_invoke := (\<lambda>qa args.
       Inr \<lparr>result = ''It is a greeting.'',
            source_documents = Some [Document [72, 105, 10, 72, 111]]\<rparr>)\<rparr>"

section \<open>Lemmas\<close>

lemmas io_defs = io_return_def io_raise_def io_bind_def io_get_def try_except_def
  try_finally_def call_def call_unit_def

subsection \<open>Blank pages\<close>

lemma strip_eq_Nil: "strip t = [] \<longleftrightarrow> (\<forall>c\<in>set t. isspace c)"
proof
  assume "strip t = []"
  then have "dropWhile isspace (rev (dropWhile isspace t)) = []"
    by (simp add: strip_def)
  then have a: "\<forall>c\<in>set (dropWhile isspace t). isspace c"
    by (metis dropWhile_eq_Nil_conv set_rev)
  have "dropWhile isspace t = []"
  proof (cases "dropWhile isspace t")
    case Nil
    then show ?thesis .
  next
    case (Cons c cs)
    then have "\<not> isspace c" using hd_dropWhile[of isspace t] by simp
    moreover have "isspace c" using a Cons by (metis list.set_intros(1))
    ultimately show ?thesis by simp
  qed
  then show "\<forall>c\<in>set t. isspace c"
    by (metis dropWhile_eq_Nil_conv)
next
  assume "\<forall>c\<in>set t. isspace c"
  then have dw: "dropWhile isspace t = []" by (metis dropWhile_eq_Nil_conv)
  show "strip t = []" unfolding strip_def dw by simp
qed

lemma filter_blank_pages:
  assumes "\<forall>t. Some t \<in> set pages \<longrightarrow> strip t = []"
  shows "filter nonempty_page pages = []"
proof -
  have "\<not> nonempty_page pg" if "pg \<in> set pages" for pg
  proof (cases pg)
    case None
    then show ?thesis by simp
  next
    case (Some t)
    then have "strip t = []" using that assms by blast
    then show ?thesis using Some by simp
  qed
  then show ?thesis by (simp add: filter_empty_conv)
qed

lemma strip_Nil: "strip [] = []"
  by (simp add: strip_def)

lemma extract_blank:
  assumes "files s path = Some b" and "pdf_pages e b = Inr pages"
    and "\<forall>t. Some t \<in> set pages \<longrightarrow> strip t = []"
  shows "extract_text_from_pdf e path s =
           (Inl (Exception ''Error reading PDF: No text could be extracted from the PDF file.''),
            s\<lparr>trace := trace s @ [PdfReader path]\<rparr>)"
  using assms(1,2) filter_blank_pages[OF assms(3)]
  by (simp add: extract_text_from_pdf_def read_pages_def io_defs strip_Nil)

lemma try_blank:
  assumes "files s path = Some b" and "pdf_pages e b = Inr pages"
    and "\<forall>t. Some t \<in> set pages \<longrightarrow> strip t = []"
  shows "\<exists>x evs. process_pdf_try e path idx cb s = (Inl x, s\<lparr>trace := trace s @ evs\<rparr>) \<and>
           list_all (\<lambda>ev. \<not> calls_embedding ev) evs \<and>
           ((\<forall>g. cb = Some g \<longrightarrow> g ''Reading PDF document...'' = None) \<longrightarrow>
              x = Exception ''Error reading PDF: No text could be extracted from the PDF file.'')"
proof (cases cb)
  case None
  then show ?thesis
    using extract_blank[OF assms]
    apply (simp add: process_pdf_try_def notify_def io_bind_def io_return_def)
    apply (rule exI[of _ "[PdfReader path]"])
    apply simp
    done
next
  case (Some g)
  show ?thesis
  proof (cases "g ''Reading PDF document...''")
    case None
    have "files (s\<lparr>trace := trace s @ [StatusCallback ''Reading PDF document...'']\<rparr>) path = Some b"
      using assms(1) by simp
    from extract_blank[OF this assms(2,3)] show ?thesis
      using Some None
      apply (simp add: process_pdf_try_def notify_def io_bind_def io_return_def call_unit_def call_def)
      apply (rule exI[of _ "[StatusCallback ''Reading PDF document...'', PdfReader path]"])
      apply simp
      done
  next
    case (Some x)
    then show ?thesis using \<open>cb = Some g\<close>
      apply (simp add: process_pdf_try_def notify_def io_bind_def io_return_def call_unit_def call_def)
      apply (rule exI[of _ "[StatusCallback ''Reading PDF document...'']"])
      apply simp
      done
  qed
qed

subsection \<open>What a computation does to the files and the trace\<close>

lemma steps_refl: "steps P s s"
  by (simp add: steps_def)

lemma steps_trans: "steps P s s1 \<Longrightarrow> steps P s1 s2 \<Longrightarrow> steps P s s2"
  by (auto simp: steps_def)

lemma runs_return: "runs P (io_return x)"
  by (simp add: runs_def io_return_def steps_refl)

lemma runs_raise: "runs P (io_raise x)"
  by (simp add: runs_def io_raise_def steps_refl)

lemma runs_bind:
  assumes "runs P m" and "\<And>x. runs P (f x)"
  shows "runs P (io_bind m f)"
proof -
  have "steps P s (snd (io_bind m f s))" for s
  proof (cases "m s")
    case (Pair r s1)
    have a: "steps P s s1" using assms(1) Pair by (metis runs_def snd_conv)
    show ?thesis
    proof (cases r)
      case (Inl x)
      then show ?thesis using Pair a by (simp add: io_bind_def)
    next
      case (Inr y)
      have "steps P s1 (snd (f y s1))" using assms(2) by (simp add: runs_def)
      then show ?thesis using Pair Inr a by (simp add: io_bind_def steps_trans)
    qed
  qed
  then show ?thesis by (simp add: runs_def)
qed

lemma runs_try_except:
  assumes "runs P m" and "\<And>x. runs P (h x)"
  shows "runs P (try_except m h)"
proof -
  have "steps P s (snd (try_except m h s))" for s
  proof (cases "m s")
    case (Pair r s1)
    have a: "steps P s s1" using assms(1) Pair by (metis runs_def snd_conv)
    show ?thesis
    proof (cases r)
      case (Inl x)
      have "steps P s1 (snd (h x s1))" using assms(2) by (simp add: runs_def)
      then show ?thesis using Pair Inl a by (simp add: try_except_def steps_trans)
    next
      case (Inr y)
      then show ?thesis using Pair a by (simp add: try_except_def)
    qed
  qed
  then show ?thesis by (simp add: runs_def)
qed

lemma runs_get: "(\<And>s. runs P (f s)) \<Longrightarrow> runs P (io_bind io_get f)"
  by (simp add: runs_def io_bind_def io_get_def)

lemma runs_call: "P ev \<Longrightarrow> runs P (call ev r)"
  by (simp add: runs_def call_def steps_def)

lemma runs_call_unit: "P ev \<Longrightarrow> runs P (call_unit ev r)"
  by (simp add: call_unit_def runs_call)

lemma runs_notify: "P (StatusCallback msg) \<Longrightarrow> runs P (notify cb msg)"
  by (cases cb) (simp_all add: notify_def runs_return runs_call_unit)

lemma runs_extract: "P (PdfReader path) \<Longrightarrow> runs P (extract_text_from_pdf e path)"
  unfolding extract_text_from_pdf_def read_pages_def Let_def
  by (intro runs_try_except runs_bind runs_get runs_raise)
     (auto simp: runs_call runs_raise runs_return split: option.splits)

lemma runs_split: "(\<And>a b c d. P (SplitText a b c d)) \<Longrightarrow> runs P (split_text_into_chunks e t)"
  unfolding split_text_into_chunks_def
  by (intro runs_try_except runs_bind runs_raise runs_call)
     (auto simp: runs_raise runs_return)

lemma runs_test: "(\<And>t. P (EmbedQuery t)) \<Longrightarrow> runs P (test_embeddings e t)"
  unfolding test_embeddings_def
  by (intro runs_try_except runs_get runs_raise)
     (auto simp: runs_raise runs_return runs_call intro!: runs_bind split: option.splits)

lemma runs_wait:
  assumes "P (DescribeIndex idx)" and "P (Sleep 1)"
  shows "runs P (wait_until_ready e idx i n)"
proof (induction n arbitrary: i)
  case 0
  then show ?case by (simp add: runs_raise)
next
  case (Suc n)
  have "runs P (if ready then io_return ()
                else io_bind (call (Sleep 1) (Inr ())) (\<lambda>u. wait_until_ready e idx (Suc i) n))"
    for ready
  proof (cases ready)
    case True
    then show ?thesis by (simp add: runs_return)
  next
    case False
    have "runs P (io_bind (call (Sleep 1) (Inr ())) (\<lambda>u. wait_until_ready e idx (Suc i) n))"
      by (rule runs_bind) (rule runs_call, rule assms(2), rule Suc.IH)
    then show ?thesis using False by simp
  qed
  then show ?case
    unfolding wait_until_ready.simps
    by (intro runs_bind runs_call assms(1))
qed

lemma runs_setup:
  assumes "P ListIndexes" "P (DescribeIndex idx)" "P (Sleep 1)"
    "P (CreateIndex idx VECTOR_DIMENSION VECTOR_METRIC PINECONE_CLOUD PINECONE_REGION)"
  shows "runs P (setup_pinecone_index e idx)"
proof -
  have w: "runs P (wait_until_ready e idx 0 30)"
    by (rule runs_wait) (rule assms)+
  have c: "runs P (io_bind
                    (call_unit
                       (CreateIndex idx VECTOR_DIMENSION VECTOR_METRIC
                          PINECONE_CLOUD PINECONE_REGION)
                       (create_index e idx VECTOR_DIMENSION VECTOR_METRIC
                          PINECONE_CLOUD PINECONE_REGION))
                    (\<lambda>u. io_bind (wait_until_ready e idx 0 30)
                       (\<lambda>u. io_return (True, ''created''))))"
    by (intro runs_bind runs_call_unit assms(4) w runs_return)
  show ?thesis
    unfolding setup_pinecone_index_def
    by (intro runs_try_except runs_get runs_raise)
       (auto simp: runs_raise runs_return runs_call assms(1) c
             intro!: runs_bind split: option.splits)
qed

lemma runs_first_chunk: "runs P (first_chunk ts)"
  by (cases ts) (simp_all add: runs_raise runs_return)

lemma runs_upload:
  "(\<And>ds. P (FromDocuments ds idx)) \<Longrightarrow> runs P (upload_to_pinecone e ds idx)"
  unfolding upload_to_pinecone_def
  apply (intro runs_try_except runs_bind runs_raise runs_call_unit runs_return)
   apply simp
  apply (simp add: runs_def set_vectorstore_def steps_def)
  done

lemma runs_case_prod: "(\<And>a b. runs P (f a b)) \<Longrightarrow> runs P (case_prod f x)"
  by (cases x) simp

lemma runs_process_pdf_try: "runs (configured_create idx) (process_pdf_try e path idx cb)"
  unfolding process_pdf_try_def Let_def
  apply (intro runs_bind runs_case_prod runs_notify runs_extract runs_split runs_test
      runs_setup runs_first_chunk runs_upload runs_return)
  apply simp_all
  done

subsection \<open>The shape of a run of process_pdf\<close>

lemma process_pdf_saved:
  assumes "tmp_file e = Inr path" and "tmp_write e path pdf = None"
  shows "process_pdf e pdf idx cb s =
           try_finally
             (try_except (process_pdf_try e path idx cb)
                (\<lambda>x. io_return (False, ''Error processing PDF: '' @ str_exn x)))
             (cleanup e path) (saved s path pdf)"
  using assms by (simp add: process_pdf_def save_upload_def io_bind_def saved_def Let_def)

lemma cleanup_present:
  assumes "files s path \<noteq> None"
  shows "\<exists>s'. cleanup e path s = (Inr (), s') \<and> trace s' = trace s @ [Unlink path] \<and>
           manager s' = manager s \<and>
           files s' = (if os_unlink e path = None then (files s)(path := None) else files s)"
  using assms
  by (cases "os_unlink e path")
     (auto simp: cleanup_def unlink_def io_bind_def io_get_def try_except_def io_return_def)

lemma except_returns:
  "\<exists>ok msg s'. try_except m (\<lambda>x. io_return (False, ''Error processing PDF: '' @ str_exn x)) s
      = (Inr (ok, msg), s')"
  by (cases "m s") (auto simp: try_except_def io_return_def split: sum.splits)

lemma runs_process_pdf_except:
  "runs (configured_create idx)
     (try_except (process_pdf_try e path idx cb)
        (\<lambda>x. io_return (False, ''Error processing PDF: '' @ str_exn x)))"
  by (intro runs_try_except runs_process_pdf_try runs_return)

lemma process_pdf_shape:
  assumes "tmp_file e = Inr path" and "tmp_write e path pdf = None"
  shows "\<exists>ok msg s2 s3.
           try_except (process_pdf_try e path idx cb)
             (\<lambda>x. io_return (False, ''Error processing PDF: '' @ str_exn x)) (saved s path pdf)
             = (Inr (ok, msg), s2) \<and>
           steps (configured_create idx) (saved s path pdf) s2 \<and>
           cleanup e path s2 = (Inr (), s3) \<and>
           trace s3 = trace s2 @ [Unlink path] \<and>
           files s3 = (if os_unlink e path = None then (files s2)(path := None) else files s2) \<and>
           process_pdf e pdf idx cb s = (Inr (ok, msg), s3)"
proof -
  define m where "m = try_except (process_pdf_try e path idx cb)
             (\<lambda>x. io_return (False, ''Error processing PDF: '' @ str_exn x))"
  obtain ok msg s2 where m: "m (saved s path pdf) = (Inr (ok, msg), s2)"
    unfolding m_def using except_returns by blast
  have "runs (configured_create idx) m"
    unfolding m_def by (rule runs_process_pdf_except)
  then have "steps (configured_create idx) (saved s path pdf) (snd (m (saved s path pdf)))"
    unfolding runs_def by (rule spec)
  then have st: "steps (configured_create idx) (saved s path pdf) s2"
    by (simp add: m)
  then have "files s2 path \<noteq> None" by (simp add: steps_def saved_def)
  from cleanup_present[OF this, of e] obtain s3 where
    c: "cleanup e path s2 = (Inr (), s3)" "trace s3 = trace s2 @ [Unlink path]"
       "files s3 = (if os_unlink e path = None then (files s2)(path := None) else files s2)"
    by blast
  have "process_pdf e pdf idx cb s = try_finally m (cleanup e path) (saved s path pdf)"
    unfolding m_def by (rule process_pdf_saved[OF assms])
  then have p: "process_pdf e pdf idx cb s = (Inr (ok, msg), s3)"
    by (simp add: try_finally_def m c(1))
  show ?thesis
    apply (rule exI[of _ ok], rule exI[of _ msg], rule exI[of _ s2], rule exI[of _ s3])
    using m st c p unfolding m_def by simp
qed

subsection \<open>The readiness poll\<close>

lemma polls_Suc: "polls idx (Suc k) = DescribeIndex idx # Sleep 1 # polls idx k"
  by (simp add: polls_def)

lemma polls_0: "polls idx 0 = []"
  by (simp add: polls_def)

lemma wait_ready_at:
  assumes "k < n" and "describe_index e idx (i + k) = Inr True"
    and "\<forall>j<k. describe_index e idx (i + j) = Inr False"
  shows "wait_until_ready e idx i n s =
           (Inr (), s\<lparr>trace := trace s @ polls idx k @ [DescribeIndex idx]\<rparr>)"
  using assms
proof (induction n arbitrary: i k s)
  case 0
  then show ?case by simp
next
  case (Suc n)
  show ?case
  proof (cases k)
    case 0
    then have "describe_index e idx i = Inr True" using Suc.prems(2) by simp
    then show ?thesis using 0
      by (simp add: io_bind_def call_def io_return_def polls_0)
  next
    case (Suc k')
    have d: "describe_index e idx i = Inr False"
      using Suc.prems(3) Suc by (metis add.right_neutral zero_less_Suc)
    have a: "k' < n" using Suc.prems(1) Suc by simp
    have b: "describe_index e idx (Suc i + k') = Inr True"
      using Suc.prems(2) Suc by simp
    have c: "\<forall>j<k'. describe_index e idx (Suc i + j) = Inr False"
    proof (intro allI impI)
      fix j assume "j < k'"
      then have "Suc j < k" using Suc by simp
      then have "describe_index e idx (i + Suc j) = Inr False" using Suc.prems(3) by blast
      then show "describe_index e idx (Suc i + j) = Inr False" by simp
    qed
    show ?thesis
      using Suc.IH[OF a b c] d Suc
      by (simp add: io_bind_def call_def polls_Suc)
  qed
qed

lemma wait_never_ready:
  assumes "\<forall>j<n. describe_index e idx (i + j) = Inr False"
  shows "wait_until_ready e idx i n s =
           (Inl (Exception ''Pinecone index creation timeout''),
            s\<lparr>trace := trace s @ polls idx n\<rparr>)"
  using assms
proof (induction n arbitrary: i s)
  case 0
  then show ?case by (simp add: io_raise_def polls_0)
next
  case (Suc n)
  have d: "describe_index e idx i = Inr False"
    using Suc.prems by (metis add.right_neutral zero_less_Suc)
  have c: "\<forall>j<n. describe_index e idx (Suc i + j) = Inr False"
  proof (intro allI impI)
    fix j assume "j < n"
    then have "describe_index e idx (i + Suc j) = Inr False" using Suc.prems by blast
    then show "describe_index e idx (Suc i + j) = Inr False" by simp
  qed
  show ?case
    using Suc.IH[OF c] d by (simp add: io_bind_def call_def polls_Suc)
qed

lemma wait_bounded:
  "\<exists>evs. snd (wait_until_ready e idx i n s) = s\<lparr>trace := trace s @ evs\<rparr> \<and>
         set evs \<subseteq> {DescribeIndex idx, Sleep 1} \<and>
         count_list evs (DescribeIndex idx) \<le> n \<and> count_list evs (Sleep 1) \<le> n"
proof (induction n arbitrary: i s)
  case 0
  show ?case by (rule exI[of _ "[]"]) (simp add: io_raise_def)
next
  case (Suc n)
  let ?s1 = "s\<lparr>trace := trace s @ [DescribeIndex idx]\<rparr>"
  let ?s2 = "s\<lparr>trace := trace s @ [DescribeIndex idx, Sleep 1]\<rparr>"
  show ?case
  proof (cases "describe_index e idx i")
    case (Inl x)
    show ?thesis
      by (rule exI[of _ "[DescribeIndex idx]"]) (simp add: Inl io_bind_def call_def)
  next
    case (Inr ready)
    show ?thesis
    proof (cases ready)
      case True
      show ?thesis
        by (rule exI[of _ "[DescribeIndex idx]"])
           (simp add: Inr True io_bind_def call_def io_return_def)
    next
      case False
      from Suc[of "Suc i" ?s2] obtain evs where
        a: "snd (wait_until_ready e idx (Suc i) n ?s2) = ?s2\<lparr>trace := trace ?s2 @ evs\<rparr>"
           "set evs \<subseteq> {DescribeIndex idx, Sleep 1}"
           "count_list evs (DescribeIndex idx) \<le> n" "count_list evs (Sleep 1) \<le> n"
        by blast
      have "wait_until_ready e idx i (Suc n) s = wait_until_ready e idx (Suc i) n ?s2"
        by (simp add: Inr False io_bind_def call_def)
      then show ?thesis
        using a
        by (intro exI[of _ "DescribeIndex idx # Sleep 1 # evs"]) simp
    qed
  qed
qed

lemma setup_creates:
  assumes "pc (model_manager (manager s)) = Some client" and "list_indexes e = Inr names"
    and "idx \<notin> set names"
    and "create_index e idx VECTOR_DIMENSION VECTOR_METRIC PINECONE_CLOUD PINECONE_REGION = None"
  shows "setup_pinecone_index e idx s =
           try_except
             (io_bind (wait_until_ready e idx 0 30) (\<lambda>u. io_return (True, ''created'')))
             (\<lambda>x. io_raise (Exception (''Error setting up Pinecone index: '' @ str_exn x)))
             (s\<lparr>trace := trace s @
                  [ListIndexes,
                   CreateIndex idx VECTOR_DIMENSION VECTOR_METRIC PINECONE_CLOUD
                     PINECONE_REGION]\<rparr>)"
  using assms by (simp add: setup_pinecone_index_def io_defs)

subsection \<open>Runs on the concrete inputs\<close>

lemma example_env_sel:
  "tmp_file example_env = Inr ''/tmp/tmpk3x9.pdf''"
  "tmp_write example_env path b = None"
  "os_unlink example_env path = None"
  "pdf_pages example_env b =
     Inr [Some [72, 105], Some [32, 10], None, Some [32, 72, 111, 32]]"
  "split_text example_env sz ov seps t = Inr [t]"
  "embed_query example_env t = Inr [PyFloat 1 0, PyFloat 2 0, PyFloat 3 0]"
  "list_indexes example_env = Inr []"
  "create_index example_env n d m c r = None"
  "describe_index example_env n i = Inr (2 \<le> i)"
  "from_documents example_env ds n = None"
  "from_chain_type example_env qa =
     (case qa_prompt qa of None \<Rightarrow> None
      | Some t \<Rightarrow> Some (ValueError ''Missing some input keys''))"
  "qa_invoke example_env qa args = Inl (Exception ''Rate limit reached'')"
  by (simp_all add: example_env_def)

lemma example_wait:
  "wait_until_ready example_env idx 0 30 s =
     (Inr (), s\<lparr>trace := trace s @
        [DescribeIndex idx, Sleep 1, DescribeIndex idx, Sleep 1, DescribeIndex idx]\<rparr>)"
proof -
  have "wait_until_ready example_env idx 0 30 s =
          (Inr (), s\<lparr>trace := trace s @ polls idx 2 @ [DescribeIndex idx]\<rparr>)"
    by (rule wait_ready_at) (simp_all add: example_env_sel)
  then show ?thesis by (simp add: polls_def numeral_2_eq_2)
qed

lemmas pdf_defs = process_pdf_def save_upload_def process_pdf_try_def notify_def
  extract_text_from_pdf_def read_pages_def split_text_into_chunks_def test_embeddings_def
  setup_pinecone_index_def create_documents_def upload_to_pinecone_def set_vectorstore_def
  cleanup_def unlink_def strip_def isspace_def

lemma str_nat_digit: "n < 10 \<Longrightarrow> str_nat n = [digit_char n]"
  by (simp add: str_nat.simps)

lemma example_run:
  "process_pdf example_env [37, 80, 68, 70] ''pdf-chatbot-index'' None example_state =
     (Inr (True, ''PDF processed successfully! Created 1 chunks from 2 pages.''),
      \<lparr>manager = example_manager\<lparr>pdf_processor :=
           \<lparr>vectorstore = Some (PineconeVectorStore ''pdf-chatbot-index''),
            current_index_name = Some ''pdf-chatbot-index''\<rparr>\<rparr>,
       files = Map.empty,
       trace =
         [NamedTemporaryFile ''/tmp/tmpk3x9.pdf'',
          PdfReader ''/tmp/tmpk3x9.pdf'',
          SplitText 1000 200 [[10, 10], [10], [46, 32], [33, 32], [63, 32], [32], []]
            [72, 105, 10, 72, 111],
          EmbedQuery [72, 105, 10, 72, 111],
          ListIndexes,
          CreateIndex ''pdf-chatbot-index'' 1536 ''cosine'' ''aws'' ''us-east-1'',
          DescribeIndex ''pdf-chatbot-index'', Sleep 1,
          DescribeIndex ''pdf-chatbot-index'', Sleep 1,
          DescribeIndex ''pdf-chatbot-index'',
          FromDocuments [Document [72, 105, 10, 72, 111]] ''pdf-chatbot-index'',
          Unlink ''/tmp/tmpk3x9.pdf'']\<rparr>)"
  by (simp add: pdf_defs io_defs example_wait example_env_sel example_state_def
        example_manager_def TEXT_CHUNK_SIZE_def TEXT_CHUNK_OVERLAP_def TEXT_SEPARATORS_def
        VECTOR_DIMENSION_def VECTOR_METRIC_def PINECONE_CLOUD_def PINECONE_REGION_def
        digit_char_def str_nat.simps)

subsection \<open>Successful extraction and successful runs\<close>

lemma set_join: "x \<in> set xs \<Longrightarrow> set x \<subseteq> set (join sep xs)"
  by (induction sep xs rule: join.induct) auto

lemma strip_has_nonspace:
  assumes "strip t \<noteq> []"
  shows "\<exists>c\<in>set (strip t). \<not> isspace c"
proof -
  define u where "u = dropWhile isspace (rev (dropWhile isspace t))"
  have u: "u \<noteq> []" using assms by (simp add: strip_def u_def)
  then have "\<not> isspace (hd u)" unfolding u_def by (rule hd_dropWhile)
  moreover have "hd u \<in> set (strip t)" using u by (simp add: strip_def u_def[symmetric])
  ultimately show ?thesis by blast
qed

lemma strip_join_pages:
  assumes "pg \<in> set pages" and "nonempty_page pg"
  shows "strip (join [10] (map strip_page (filter nonempty_page pages))) \<noteq> []"
proof -
  obtain t where t: "pg = Some t" "strip t \<noteq> []" using assms(2) by (cases pg) auto
  then obtain c where c: "c \<in> set (strip t)" "\<not> isspace c"
    using strip_has_nonspace by blast
  have "strip t \<in> set (map strip_page (filter nonempty_page pages))"
    using assms t by force
  then have "c \<in> set (join [10] (map strip_page (filter nonempty_page pages)))"
    using c(1) set_join by blast
  then show ?thesis using c(2) strip_eq_Nil by blast
qed

lemma extract_returns:
  assumes "files s path = Some b" and "pdf_pages e b = Inr pages"
    and "pg \<in> set pages" and "nonempty_page pg"
  shows "extract_text_from_pdf e path s =
           (Inr (join [10] (map strip_page (filter nonempty_page pages)),
                 length (filter nonempty_page pages)),
            s\<lparr>trace := trace s @ [PdfReader path]\<rparr>)"
  using assms(1,2) strip_join_pages[OF assms(3,4)]
  by (simp add: extract_text_from_pdf_def read_pages_def io_defs Let_def)

lemma extract_inverse:
  assumes "extract_text_from_pdf e path s = (Inr (text, n), s')" and "files s path = Some b"
  shows "\<exists>pages. pdf_pages e b = Inr pages \<and> n = length (filter nonempty_page pages) \<and>
           text = join [10] (map strip_page (filter nonempty_page pages))"
  using assms
  by (auto simp: extract_text_from_pdf_def read_pages_def io_defs Let_def
           split: sum.splits if_splits)

lemma split_inverse:
  assumes "split_text_into_chunks e text s = (Inr texts, s')"
  shows "split_text e TEXT_CHUNK_SIZE TEXT_CHUNK_OVERLAP TEXT_SEPARATORS text = Inr texts \<and>
         texts \<noteq> []"
  using assms
  by (auto simp: split_text_into_chunks_def io_defs split: sum.splits if_splits)

lemma io_bind_InrE:
  assumes "io_bind m f s = (Inr y, s')"
  obtains x s1 where "m s = (Inr x, s1)" and "f x s1 = (Inr y, s')"
  using assms by (auto simp: io_bind_def split: prod.splits sum.splits)

lemma notify_files: "notify cb msg s = (r, s') \<Longrightarrow> files s' = files s"
  by (cases cb) (auto simp: notify_def io_defs)


lemma try_success_inverse:
  assumes "process_pdf_try e path idx cb s = (Inr (ok, msg), s')"
  shows "\<exists>s1 s2 text n s3 s4 texts.
           files s1 = files s \<and>
           extract_text_from_pdf e path s1 = (Inr (text, n), s2) \<and>
           split_text_into_chunks e text s3 = (Inr texts, s4) \<and> ok \<and>
           msg = ''PDF processed successfully! Created '' @ str_nat (length texts)
                   @ '' chunks from '' @ str_nat n @ '' pages.''"
  using assms unfolding process_pdf_try_def Let_def
  apply (elim io_bind_InrE)
  apply (clarsimp split: prod.splits)
  apply (elim io_bind_InrE)
  apply (clarsimp split: prod.splits)
  apply (elim io_bind_InrE)
  apply (clarsimp simp: io_return_def create_documents_def)
  apply (drule notify_files)
  apply blast
  done


lemma process_pdf_success_inverse:
  assumes "process_pdf e pdf idx cb s = (Inr (True, msg), s')"
  shows "\<exists>pages texts.
           pdf_pages e pdf = Inr pages \<and>
           split_text e TEXT_CHUNK_SIZE TEXT_CHUNK_OVERLAP TEXT_SEPARATORS
             (join [10] (map strip_page (filter nonempty_page pages))) = Inr texts \<and>
           msg = ''PDF processed successfully! Created '' @ str_nat (length texts)
                   @ '' chunks from '' @ str_nat (length (filter nonempty_page pages))
                   @ '' pages.''"
proof -
  obtain path where p: "tmp_file e = Inr path" and w: "tmp_write e path pdf = None"
    using assms
    by (auto simp: process_pdf_def save_upload_def io_bind_def Let_def
             split: sum.splits option.splits)
  from process_pdf_shape[OF p w, of idx cb s] assms obtain s2 where
    t: "try_except (process_pdf_try e path idx cb)
          (\<lambda>x. io_return (False, ''Error processing PDF: '' @ str_exn x)) (saved s path pdf)
        = (Inr (True, msg), s2)"
    by auto
  then have "process_pdf_try e path idx cb (saved s path pdf) = (Inr (True, msg), s2)"
    by (auto simp: try_except_def io_return_def split: prod.splits sum.splits)
  from try_success_inverse[OF this] obtain s1 s2a tx n s3 s4 texts where
    a: "files s1 = files (saved s path pdf)"
       "extract_text_from_pdf e path s1 = (Inr (tx, n), s2a)"
       "split_text_into_chunks e tx s3 = (Inr texts, s4)"
       "msg = ''PDF processed successfully! Created '' @ str_nat (length texts)
                   @ '' chunks from '' @ str_nat n @ '' pages.''"
    by blast
  have "files s1 path = Some pdf" using a(1) by (simp add: saved_def)
  from extract_inverse[OF a(2) this] obtain pages where
    b: "pdf_pages e pdf = Inr pages" "n = length (filter nonempty_page pages)"
       "tx = join [10] (map strip_page (filter nonempty_page pages))"
    by blast
  from split_inverse[OF a(3)] have
    "split_text e TEXT_CHUNK_SIZE TEXT_CHUNK_OVERLAP TEXT_SEPARATORS tx = Inr texts"
    by simp
  then show ?thesis using a(4) b by blast
qed

subsection \<open>Index provisioning\<close>

lemma ready_at_third_poll:
  assumes "describe_index e = describe_index example_env"
  shows "wait_until_ready e idx 0 30 s =
     (Inr (), s\<lparr>trace := trace s @
        [DescribeIndex idx, Sleep 1, DescribeIndex idx, Sleep 1, DescribeIndex idx]\<rparr>)"
proof -
  have "wait_until_ready e idx 0 30 s =
          (Inr (), s\<lparr>trace := trace s @ polls idx 2 @ [DescribeIndex idx]\<rparr>)"
    by (rule wait_ready_at) (simp_all add: assms example_env_sel)
  then show ?thesis by (simp add: polls_def numeral_2_eq_2)
qed

lemma setup_absent_creates:
  assumes "pc (model_manager (manager s)) = Some client" and "list_indexes e = Inr names"
    and "idx \<notin> set names"
  shows "\<exists>evs. trace (snd (setup_pinecone_index e idx s)) =
           trace s @ ListIndexes #
             CreateIndex idx VECTOR_DIMENSION VECTOR_METRIC PINECONE_CLOUD PINECONE_REGION # evs"
proof (cases "create_index e idx VECTOR_DIMENSION VECTOR_METRIC PINECONE_CLOUD PINECONE_REGION")
  case None
  let ?s1 = "s\<lparr>trace := trace s @ [ListIndexes,
      CreateIndex idx VECTOR_DIMENSION VECTOR_METRIC PINECONE_CLOUD PINECONE_REGION]\<rparr>"
  from wait_bounded[of e idx 0 30 ?s1] obtain evs where
    a: "snd (wait_until_ready e idx 0 30 ?s1) = ?s1\<lparr>trace := trace ?s1 @ evs\<rparr>"
    by blast
  have "snd (setup_pinecone_index e idx s) = snd (wait_until_ready e idx 0 30 ?s1)"
    unfolding setup_creates[OF assms None]
    by (cases "wait_until_ready e idx 0 30 ?s1")
       (auto simp: try_except_def io_bind_def io_return_def io_raise_def split: sum.splits)
  then have "trace (snd (setup_pinecone_index e idx s)) =
      trace s @ ListIndexes #
        CreateIndex idx VECTOR_DIMENSION VECTOR_METRIC PINECONE_CLOUD PINECONE_REGION # evs"
    using a by simp
  then show ?thesis by blast
next
  case (Some x)
  have "trace (snd (setup_pinecone_index e idx s)) =
      trace s @ ListIndexes #
        CreateIndex idx VECTOR_DIMENSION VECTOR_METRIC PINECONE_CLOUD PINECONE_REGION # []"
    using assms Some by (simp add: setup_pinecone_index_def io_defs)
  then show ?thesis by blast
qed

lemma process_pdf_trace:
  "\<exists>evs. trace (snd (process_pdf e pdf idx cb s)) = trace s @ evs \<and>
         list_all (configured_create idx) evs"
proof (cases "tmp_file e")
  case (Inl x)
  have "trace (snd (process_pdf e pdf idx cb s)) = trace s @ []"
    using Inl by (simp add: process_pdf_def save_upload_def io_bind_def)
  moreover have "list_all (configured_create idx) []" by simp
  ultimately show ?thesis by blast
next
  case (Inr path)
  show ?thesis
  proof (cases "tmp_write e path pdf")
    case (Some x)
    have "trace (snd (process_pdf e pdf idx cb s)) = trace s @ [NamedTemporaryFile path]"
      using Inr Some by (simp add: process_pdf_def save_upload_def io_bind_def Let_def)
    moreover have "list_all (configured_create idx) [NamedTemporaryFile path]" by simp
    ultimately show ?thesis by blast
  next
    case None
    from process_pdf_shape[OF Inr None, of idx cb s] obtain ok msg s2 s3 where
      a: "steps (configured_create idx) (saved s path pdf) s2"
         "trace s3 = trace s2 @ [Unlink path]"
         "process_pdf e pdf idx cb s = (Inr (ok, msg), s3)"
      by blast
    from a(1) obtain evs where
      b: "trace s2 = trace s @ NamedTemporaryFile path # evs"
         "list_all (configured_create idx) evs"
      by (auto simp: steps_def saved_def)
    have "trace (snd (process_pdf e pdf idx cb s)) =
            trace s @ (NamedTemporaryFile path # evs @ [Unlink path])"
      using a(2,3) b(1) by simp
    moreover have "list_all (configured_create idx) (NamedTemporaryFile path # evs @ [Unlink path])"
      using b(2) by simp
    ultimately show ?thesis by blast
  qed
qed

lemma count_polls:
  "count_list (polls idx k) (DescribeIndex idx) = k"
  "count_list (polls idx k) (Sleep 1) = k"
  by (induction k) (simp_all add: polls_0 polls_Suc)

lemma never_ready_env_sel:
  "list_indexes never_ready_env = Inr []"
  "create_index never_ready_env n d m c r = None"
  "describe_index never_ready_env n i = Inr False"
  by (simp_all add: never_ready_env_def example_env_sel)

subsection \<open>Totality at the boundary\<close>

lemma get_response_returns:
  "\<exists>t srcs s'. get_response e q p r s = (Inr (t, srcs), s')"
  unfolding get_response_def try_except_def
  by (auto split: prod.splits sum.splits simp: io_return_def)

lemma process_pdf_returns_after_save:
  assumes "tmp_file e = Inr path" and "tmp_write e path pdf = None"
  shows "\<exists>ok msg s'. process_pdf e pdf idx cb s = (Inr (ok, msg), s')"
  using process_pdf_shape[OF assms] by blast

subsection \<open>The RAG branch\<close>

lemma rag_attempt_effect:
  assumes "vectorstore (pdf_processor (manager s)) = Some store"
    and "rag_attempt e q p s = (r, s1)"
  shows "manager s1 = manager s \<and>
         (trace s1 = trace s @ [FromChainType (persona_chain s store)] \<or>
          trace s1 = trace s @ [FromChainType (persona_chain s store),
             QAInvoke (persona_chain s store) [(''query'', q), (''system_prompt'', p)]])"
  using assms
  by (auto simp: rag_attempt_def create_rag_chain_def rag_wrapper_def persona_chain_def
        io_defs Let_def split: option.splits sum.splits)

lemma rag_fallback_cases:
  assumes "vectorstore (pdf_processor (manager s1)) = Some store"
  shows "rag_fallback e q s1 =
     (case from_chain_type e (plain_chain s1 store) of
        Some y \<Rightarrow> (Inl y, s1\<lparr>trace := trace s1 @ [FromChainType (plain_chain s1 store)]\<rparr>)
      | None \<Rightarrow>
          (case qa_invoke e (plain_chain s1 store) [(''query'', q)] of
             Inl y \<Rightarrow> (Inl y, s1\<lparr>trace := trace s1 @ [FromChainType (plain_chain s1 store),
                          QAInvoke (plain_chain s1 store) [(''query'', q)]]\<rparr>)
           | Inr r \<Rightarrow> (Inr (answer_of r), s1\<lparr>trace := trace s1 @
                         [FromChainType (plain_chain s1 store),
                          QAInvoke (plain_chain s1 store) [(''query'', q)]]\<rparr>)))"
  using assms
  by (auto simp: rag_fallback_def plain_chain_def io_defs Let_def
           split: option.splits sum.splits)

lemma get_response_after_failed_attempt:
  assumes "is_initialized (model_manager (manager s))"
    and "vectorstore (pdf_processor (manager s)) = Some store"
    and "rag_attempt e q p s = (Inl x, s1)"
  shows "get_response e q p True s =
           (case rag_fallback e q s1 of
              (Inl y, s2) \<Rightarrow> (Inr (''RAG Error: '' @ str_exn y, []), s2)
            | (Inr r, s2) \<Rightarrow> (Inr r, s2))"
  using assms
  by (simp add: get_response_def try_except_def io_bind_def io_get_def io_return_def
        split: prod.splits sum.splits)

lemma populated_state_sel:
  "is_initialized (model_manager (manager populated_state))"
  "vectorstore (pdf_processor (manager populated_state)) =
     Some (PineconeVectorStore ''pdf-chatbot-index'')"
  by (simp_all add: populated_state_def example_state_def example_manager_def
        is_initialized_def)

lemma refused_persona_attempt:
  assumes "from_chain_type e = from_chain_type example_env"
  shows "rag_attempt e q p populated_state =
     (Inl (ValueError ''Missing some input keys''),
      populated_state\<lparr>trace := trace populated_state @
        [FromChainType
           (persona_chain populated_state (PineconeVectorStore ''pdf-chatbot-index''))]\<rparr>)"
  by (simp add: rag_attempt_def create_rag_chain_def persona_chain_def io_defs Let_def
        populated_state_sel assms example_env_sel)

subsection \<open>What the chunking method adds to the splitter\<close>

lemma split_text_into_chunks_forwards:
  assumes "split_text e TEXT_CHUNK_SIZE TEXT_CHUNK_OVERLAP TEXT_SEPARATORS t = Inr texts"
    and "texts \<noteq> []"
  shows "split_text_into_chunks e t s =
           (Inr texts,
            s\<lparr>trace := trace s @
               [SplitText TEXT_CHUNK_SIZE TEXT_CHUNK_OVERLAP TEXT_SEPARATORS t]\<rparr>)"
  using assms by (simp add: split_text_into_chunks_def io_defs)

section \<open>Properties of ingestion\<close>

text \<open>
  C10. The page count that text extraction returns, and that the success summary of
  ingestion reports, is the number of pages whose extracted text is not empty after
  trimming white space (the pages the filter keeps), not the number of pages of the PDF.
  A page is kept exactly when it has text and \<open>strip\<close> leaves some of it. When a page
  is kept, extraction returns the joined text with that count; whenever extraction
  returns, the count it returns is that number; and whenever ingestion succeeds, the
  summary names that number (and the number of chunks the splitter returned).
\<close>

theorem reported_pages_are_the_nonempty_pages:
  "(nonempty_page pg \<longleftrightarrow> (\<exists>t. pg = Some t \<and> strip t \<noteq> [])) \<and>
   (files s path = Some b \<and> pdf_pages e b = Inr pages \<and> (\<exists>pg\<in>set pages. nonempty_page pg) \<longrightarrow>
      fst (extract_text_from_pdf e path s) =
        Inr (join [10] (map strip_page (filter nonempty_page pages)),
             length (filter nonempty_page pages))) \<and>
   (files s path = Some b \<and> extract_text_from_pdf e path s = (Inr (tx, n), s1) \<longrightarrow>
      (\<exists>pages. pdf_pages e b = Inr pages \<and> n = length (filter nonempty_page pages))) \<and>
   (process_pdf e pdf idx cb s0 = (Inr (True, msg), s') \<longrightarrow>
      (\<exists>pages texts.
         pdf_pages e pdf = Inr pages \<and>
         split_text e TEXT_CHUNK_SIZE TEXT_CHUNK_OVERLAP TEXT_SEPARATORS
           (join [10] (map strip_page (filter nonempty_page pages))) = Inr texts \<and>
         msg = ''PDF processed successfully! Created '' @ str_nat (length texts)
                 @ '' chunks from '' @ str_nat (length (filter nonempty_page pages))
                 @ '' pages.''))"
proof (intro conjI impI)
  show "nonempty_page pg \<longleftrightarrow> (\<exists>t. pg = Some t \<and> strip t \<noteq> [])"
    by (cases pg) (auto simp: strip_Nil)
next
  assume a: "files s path = Some b \<and> pdf_pages e b = Inr pages \<and>
    (\<exists>pg\<in>set pages. nonempty_page pg)"
  then obtain pg where "pg \<in> set pages" "nonempty_page pg" by blast
  with a show "fst (extract_text_from_pdf e path s) =
        Inr (join [10] (map strip_page (filter nonempty_page pages)),
             length (filter nonempty_page pages))"
    by (simp add: extract_returns)
next
  assume "files s path = Some b \<and> extract_text_from_pdf e path s = (Inr (tx, n), s1)"
  then show "\<exists>pages. pdf_pages e b = Inr pages \<and> n = length (filter nonempty_page pages)"
    using extract_inverse by blast
next
  assume "process_pdf e pdf idx cb s0 = (Inr (True, msg), s')"
  then show "\<exists>pages texts.
         pdf_pages e pdf = Inr pages \<and>
         split_text e TEXT_CHUNK_SIZE TEXT_CHUNK_OVERLAP TEXT_SEPARATORS
           (join [10] (map strip_page (filter nonempty_page pages))) = Inr texts \<and>
         msg = ''PDF processed successfully! Created '' @ str_nat (length texts)
                 @ '' chunks from '' @ str_nat (length (filter nonempty_page pages))
                 @ '' pages.''"
    by (rule process_pdf_success_inverse)
qed

theorem reported_pages_are_the_nonempty_pages_witness:
  "length [Some [72, 105], Some [32, 10], None, Some [32, 72, 111, 32 :: nat]] = 4 \<and>
   fst (extract_text_from_pdf example_env ''/tmp/tmpk3x9.pdf''
          (saved example_state ''/tmp/tmpk3x9.pdf'' [37, 80, 68, 70])) =
     Inr ([72, 105, 10, 72, 111], 2) \<and>
   fst (process_pdf example_env [37, 80, 68, 70] ''pdf-chatbot-index'' None example_state) =
     Inr (True, ''PDF processed successfully! Created 1 chunks from 2 pages.'') \<and>
   (\<exists>pages texts.
      pdf_pages example_env [37, 80, 68, 70] = Inr pages \<and>
      split_text example_env TEXT_CHUNK_SIZE TEXT_CHUNK_OVERLAP TEXT_SEPARATORS
        (join [10] (map strip_page (filter nonempty_page pages))) = Inr texts \<and>
      ''PDF processed successfully! Created 1 chunks from 2 pages.'' =
        ''PDF processed successfully! Created '' @ str_nat (length texts)
          @ '' chunks from '' @ str_nat (length (filter nonempty_page pages)) @ '' pages.'')"
proof -
  note t = reported_pages_are_the_nonempty_pages
    [where s = "saved example_state ''/tmp/tmpk3x9.pdf'' [37, 80, 68, 70]"
       and path = "''/tmp/tmpk3x9.pdf''" and b = "[37, 80, 68, 70]" and e = example_env
       and pages = "[Some [72, 105], Some [32, 10], None, Some [32, 72, 111, 32]]"
       and s0 = example_state and pdf = "[37, 80, 68, 70]" and idx = "''pdf-chatbot-index''" and cb = None
       and msg = "''PDF processed successfully! Created 1 chunks from 2 pages.''"
       and s' = "snd (process_pdf example_env [37, 80, 68, 70] ''pdf-chatbot-index'' None
                   example_state)"]
  have h: "files (saved example_state ''/tmp/tmpk3x9.pdf'' [37, 80, 68, 70]) ''/tmp/tmpk3x9.pdf''
             = Some [37, 80, 68, 70] \<and>
           pdf_pages example_env [37, 80, 68, 70] =
             Inr [Some [72, 105], Some [32, 10], None, Some [32, 72, 111, 32]] \<and>
           (\<exists>pg\<in>set [Some [72, 105], Some [32, 10], None, Some [32, 72, 111, 32]].
              nonempty_page pg)"
    by (simp add: saved_def example_env_sel strip_def isspace_def)
  have a: "fst (extract_text_from_pdf example_env ''/tmp/tmpk3x9.pdf''
          (saved example_state ''/tmp/tmpk3x9.pdf'' [37, 80, 68, 70])) =
     Inr ([72, 105, 10, 72, 111], 2)"
    using t[THEN conjunct2, THEN conjunct1, rule_format, OF h]
    by (simp add: strip_def isspace_def)
  have r: "process_pdf example_env [37, 80, 68, 70] ''pdf-chatbot-index'' None example_state =
     (Inr (True, ''PDF processed successfully! Created 1 chunks from 2 pages.''),
      snd (process_pdf example_env [37, 80, 68, 70] ''pdf-chatbot-index'' None example_state))"
    by (simp add: example_run)
  have b: "\<exists>pages texts.
      pdf_pages example_env [37, 80, 68, 70] = Inr pages \<and>
      split_text example_env TEXT_CHUNK_SIZE TEXT_CHUNK_OVERLAP TEXT_SEPARATORS
        (join [10] (map strip_page (filter nonempty_page pages))) = Inr texts \<and>
      ''PDF processed successfully! Created 1 chunks from 2 pages.'' =
        ''PDF processed successfully! Created '' @ str_nat (length texts)
          @ '' chunks from '' @ str_nat (length (filter nonempty_page pages)) @ '' pages.''"
    by (rule t[THEN conjunct2, THEN conjunct2, THEN conjunct2, rule_format, OF r])
  have c: "fst (process_pdf example_env [37, 80, 68, 70] ''pdf-chatbot-index'' None
                  example_state) =
             Inr (True, ''PDF processed successfully! Created 1 chunks from 2 pages.'')"
    by (simp add: example_run)
  show ?thesis
    by (intro conjI a b c) simp
qed

text \<open>
  C3. When the upload has been saved and every page of the PDF has no text or only
  white space, ingestion returns failure, and the calls it has made do not include the
  embedding probe or the upload. The message is that of the extraction error, provided
  the progress callback (when one is given) does not itself raise on the first status
  message.
\<close>

theorem blank_pdf_fails_before_embedding:
  assumes "tmp_file e = Inr path" and "tmp_write e path pdf = None"
    and "pdf_pages e pdf = Inr pages"
    and "\<forall>t. Some t \<in> set pages \<longrightarrow> strip t = []"
  shows "\<exists>msg s' evs.
           process_pdf e pdf idx cb s = (Inr (False, msg), s') \<and>
           trace s' = trace s @ evs \<and>
           list_all (\<lambda>ev. \<not> calls_embedding ev) evs \<and>
           ((\<forall>g. cb = Some g \<longrightarrow> g ''Reading PDF document...'' = None) \<longrightarrow>
              msg = ''Error processing PDF: Error reading PDF: No text could be extracted from the PDF file.'')"
proof -
  have f: "files (saved s path pdf) path = Some pdf" by (simp add: saved_def)
  from try_blank[OF f assms(3,4), of idx cb] obtain x evs where
    t: "process_pdf_try e path idx cb (saved s path pdf) =
          (Inl x, (saved s path pdf)\<lparr>trace := trace (saved s path pdf) @ evs\<rparr>)"
       "list_all (\<lambda>ev. \<not> calls_embedding ev) evs"
       "(\<forall>g. cb = Some g \<longrightarrow> g ''Reading PDF document...'' = None) \<longrightarrow>
          x = Exception ''Error reading PDF: No text could be extracted from the PDF file.''"
    by blast
  define s2 where "s2 = (saved s path pdf)\<lparr>trace := trace (saved s path pdf) @ evs\<rparr>"
  have "files s2 path \<noteq> None" by (simp add: s2_def saved_def)
  from cleanup_present[OF this, of e] obtain s3 where
    c: "cleanup e path s2 = (Inr (), s3)" "trace s3 = trace s2 @ [Unlink path]"
    by blast
  have p: "process_pdf e pdf idx cb s =
             (Inr (False, ''Error processing PDF: '' @ str_exn x), s3)"
    using t(1) c(1)
    by (simp add: process_pdf_saved[OF assms(1,2)] try_finally_def try_except_def
          io_return_def s2_def)
  have tr: "trace s3 = trace s @ (NamedTemporaryFile path # evs @ [Unlink path])"
    using c(2) by (simp add: s2_def saved_def)
  have la: "list_all (\<lambda>ev. \<not> calls_embedding ev) (NamedTemporaryFile path # evs @ [Unlink path])"
    using t(2) by simp
  have m: "(\<forall>g. cb = Some g \<longrightarrow> g ''Reading PDF document...'' = None) \<longrightarrow>
             ''Error processing PDF: '' @ str_exn x =
             ''Error processing PDF: Error reading PDF: No text could be extracted from the PDF file.''"
    using t(3) by auto
  show ?thesis
    apply (rule exI[of _ "''Error processing PDF: '' @ str_exn x"])
    apply (rule exI[of _ s3])
    apply (rule exI[of _ "NamedTemporaryFile path # evs @ [Unlink path]"])
    apply (intro conjI p tr la m)
    done
qed

theorem blank_pdf_fails_before_embedding_witness:
  "tmp_file blank_env = Inr ''/tmp/tmpk3x9.pdf'' \<and>
   tmp_write blank_env ''/tmp/tmpk3x9.pdf'' [37, 80, 68, 70] = None \<and>
   pdf_pages blank_env [37, 80, 68, 70] = Inr [Some [32, 10], None, Some []] \<and>
   strip [32, 10] = [] \<and> strip [] = [] \<and>
   (\<exists>s' evs.
      process_pdf blank_env [37, 80, 68, 70] ''pdf-chatbot-index'' None example_state =
        (Inr (False,
           ''Error processing PDF: Error reading PDF: No text could be extracted from the PDF file.''),
         s') \<and>
      trace s' = trace example_state @ evs \<and>
      list_all (\<lambda>ev. \<not> calls_embedding ev) evs)"
proof -
  have a: "tmp_file blank_env = Inr ''/tmp/tmpk3x9.pdf''"
    by (simp add: blank_env_def example_env_sel)
  have b: "tmp_write blank_env ''/tmp/tmpk3x9.pdf'' [37, 80, 68, 70] = None"
    by (simp add: blank_env_def example_env_sel)
  have c: "pdf_pages blank_env [37, 80, 68, 70] = Inr [Some [32, 10], None, Some []]"
    by (simp add: blank_env_def)
  have d: "strip [32, 10] = []" "strip [] = []"
    by (simp_all add: strip_def isspace_def)
  have e: "\<forall>t. Some t \<in> set [Some [32, 10], None, Some []] \<longrightarrow> strip t = []"
    using d by auto
  from blank_pdf_fails_before_embedding[OF a b c e,
      of "''pdf-chatbot-index''" None example_state]
  obtain msg s' evs where
    o: "process_pdf blank_env [37, 80, 68, 70] ''pdf-chatbot-index'' None example_state =
          (Inr (False, msg), s')"
       "trace s' = trace example_state @ evs"
       "list_all (\<lambda>ev. \<not> calls_embedding ev) evs"
       "(\<forall>g. (None :: (string \<Rightarrow> exn option) option) = Some g \<longrightarrow>
            g ''Reading PDF document...'' = None) \<longrightarrow>
         msg = ''Error processing PDF: Error reading PDF: No text could be extracted from the PDF file.''"
    by blast
  have m: "msg = ''Error processing PDF: Error reading PDF: No text could be extracted from the PDF file.''"
    using o(4) by simp
  have w: "\<exists>s' evs.
      process_pdf blank_env [37, 80, 68, 70] ''pdf-chatbot-index'' None example_state =
        (Inr (False,
           ''Error processing PDF: Error reading PDF: No text could be extracted from the PDF file.''),
         s') \<and>
      trace s' = trace example_state @ evs \<and>
      list_all (\<lambda>ev. \<not> calls_embedding ev) evs"
    using o(1,2,3) unfolding m by blast
  show ?thesis
    by (intro conjI a b c d w)
qed

text \<open>
  C1, as the code has it. The dimension of a new index is the configured constant
  \<open>VECTOR_DIMENSION\<close> (1536) and its metric the configured \<open>VECTOR_METRIC\<close> (cosine):
  every \<open>create_index\<close> call of an ingestion run is for the given name with these two
  values, whatever the embedding probe returned, and when the index client is there and
  the listing does not contain the name, \<open>setup_pinecone_index\<close> makes that call right
  after the listing.
\<close>

theorem index_created_with_configured_dimension:
  "VECTOR_DIMENSION = 1536 \<and> VECTOR_METRIC = ''cosine'' \<and>
   (\<exists>evs. trace (snd (process_pdf e pdf idx cb s)) = trace s @ evs \<and>
          list_all (configured_create idx) evs) \<and>
   (pc (model_manager (manager s0)) = Some client \<and> list_indexes e = Inr names \<and>
    idx \<notin> set names \<longrightarrow>
      (\<exists>evs. trace (snd (setup_pinecone_index e idx s0)) =
         trace s0 @ ListIndexes #
           CreateIndex idx VECTOR_DIMENSION VECTOR_METRIC PINECONE_CLOUD PINECONE_REGION # evs))"
proof (intro conjI impI)
  show "VECTOR_DIMENSION = 1536" by (simp add: VECTOR_DIMENSION_def)
  show "VECTOR_METRIC = ''cosine''" by (simp add: VECTOR_METRIC_def)
  show "\<exists>evs. trace (snd (process_pdf e pdf idx cb s)) = trace s @ evs \<and>
          list_all (configured_create idx) evs"
    by (rule process_pdf_trace)
next
  assume "pc (model_manager (manager s0)) = Some client \<and> list_indexes e = Inr names \<and>
    idx \<notin> set names"
  then show "\<exists>evs. trace (snd (setup_pinecone_index e idx s0)) =
         trace s0 @ ListIndexes #
           CreateIndex idx VECTOR_DIMENSION VECTOR_METRIC PINECONE_CLOUD PINECONE_REGION # evs"
    using setup_absent_creates by blast
qed

theorem index_created_with_configured_dimension_witness:
  "pc (model_manager (manager example_state)) = Some Pinecone \<and>
   list_indexes example_env = Inr [] \<and>
   (\<exists>evs. trace (snd (setup_pinecone_index example_env ''pdf-chatbot-index'' example_state)) =
      trace example_state @ ListIndexes #
        CreateIndex ''pdf-chatbot-index'' VECTOR_DIMENSION VECTOR_METRIC PINECONE_CLOUD
          PINECONE_REGION # evs)"
proof -
  have h: "pc (model_manager (manager example_state)) = Some Pinecone \<and>
           list_indexes example_env = Inr [] \<and> ''pdf-chatbot-index'' \<notin> set []"
    by (simp add: example_state_def example_manager_def example_env_sel)
  note w = index_created_with_configured_dimension
    [where ?s0.0 = example_state and e = example_env and idx = "''pdf-chatbot-index''"
       and client = Pinecone and names = "[]",
     THEN conjunct2, THEN conjunct2, THEN conjunct2, rule_format, OF h]
  show ?thesis using h w by (intro conjI) simp_all
qed

text \<open>
  C1 as stated fails: in this run the probe returns a vector of three components (the
  status callback reports \<open>Vector Dimension: 3\<close>), and the index is created with
  dimension 1536.
\<close>

theorem probed_dimension_not_passed_counterexample:
  "fst (test_embeddings example_env [72, 105, 10, 72, 111] example_state) = Inr 3 \<and>
   trace (snd (process_pdf example_env [37, 80, 68, 70] ''pdf-chatbot-index''
                 (Some quiet_callback) example_state)) =
     [NamedTemporaryFile ''/tmp/tmpk3x9.pdf'',
      StatusCallback ''Reading PDF document...'',
      PdfReader ''/tmp/tmpk3x9.pdf'',
      StatusCallback ''PDF Read Successfully - 2 pages'',
      StatusCallback ''Splitting text into chunks...'',
      SplitText 1000 200 [[10, 10], [10], [46, 32], [33, 32], [63, 32], [32], []]
        [72, 105, 10, 72, 111],
      StatusCallback ''Created 1 text chunks'',
      StatusCallback ''Testing embeddings...'',
      EmbedQuery [72, 105, 10, 72, 111],
      StatusCallback ''Vector Dimension: 3'',
      StatusCallback ''Setting up Pinecone index...'',
      ListIndexes,
      CreateIndex ''pdf-chatbot-index'' 1536 ''cosine'' ''aws'' ''us-east-1'',
      DescribeIndex ''pdf-chatbot-index'', Sleep 1,
      DescribeIndex ''pdf-chatbot-index'', Sleep 1,
      DescribeIndex ''pdf-chatbot-index'',
      StatusCallback ''Created new Pinecone index: pdf-chatbot-index'',
      StatusCallback ''Creating document vectors...'',
      StatusCallback ''Prepared 1 documents'',
      StatusCallback ''Uploading to Pinecone...'',
      FromDocuments [Document [72, 105, 10, 72, 111]] ''pdf-chatbot-index'',
      StatusCallback ''Vector Store Ready in Pinecone!'',
      Unlink ''/tmp/tmpk3x9.pdf'']"
proof (intro conjI)
  show "fst (test_embeddings example_env [72, 105, 10, 72, 111] example_state) = Inr 3"
    by (simp add: test_embeddings_def io_defs example_env_sel example_state_def
          example_manager_def)
  show "trace (snd (process_pdf example_env [37, 80, 68, 70] ''pdf-chatbot-index''
                 (Some quiet_callback) example_state)) =
     [NamedTemporaryFile ''/tmp/tmpk3x9.pdf'',
      StatusCallback ''Reading PDF document...'',
      PdfReader ''/tmp/tmpk3x9.pdf'',
      StatusCallback ''PDF Read Successfully - 2 pages'',
      StatusCallback ''Splitting text into chunks...'',
      SplitText 1000 200 [[10, 10], [10], [46, 32], [33, 32], [63, 32], [32], []]
        [72, 105, 10, 72, 111],
      StatusCallback ''Created 1 text chunks'',
      StatusCallback ''Testing embeddings...'',
      EmbedQuery [72, 105, 10, 72, 111],
      StatusCallback ''Vector Dimension: 3'',
      StatusCallback ''Setting up Pinecone index...'',
      ListIndexes,
      CreateIndex ''pdf-chatbot-index'' 1536 ''cosine'' ''aws'' ''us-east-1'',
      DescribeIndex ''pdf-chatbot-index'', Sleep 1,
      DescribeIndex ''pdf-chatbot-index'', Sleep 1,
      DescribeIndex ''pdf-chatbot-index'',
      StatusCallback ''Created new Pinecone index: pdf-chatbot-index'',
      StatusCallback ''Creating document vectors...'',
      StatusCallback ''Prepared 1 documents'',
      StatusCallback ''Uploading to Pinecone...'',
      FromDocuments [Document [72, 105, 10, 72, 111]] ''pdf-chatbot-index'',
      StatusCallback ''Vector Store Ready in Pinecone!'',
      Unlink ''/tmp/tmpk3x9.pdf'']"
    by (simp add: pdf_defs io_defs example_wait example_env_sel example_state_def
        example_manager_def TEXT_CHUNK_SIZE_def TEXT_CHUNK_OVERLAP_def TEXT_SEPARATORS_def
        VECTOR_DIMENSION_def VECTOR_METRIC_def PINECONE_CLOUD_def PINECONE_REGION_def
        digit_char_def str_nat.simps quiet_callback_def)
qed

text \<open>
  C8. When the index is to be created and \<open>create_index\<close> succeeds, the readiness
  wait makes at most 30 polls and at most 30 sleeps of one second and nothing else; if
  poll \<open>k\<close> (counted from 0, \<open>k < 30\<close>) is the first to report ready, the method
  returns \<open>created\<close> after \<open>k\<close> unready polls with their sleeps and that one poll; if
  none of the 30 polls reports ready, it raises the timeout error after 30 polls and 30
  sleeps.
\<close>

theorem readiness_wait_is_bounded:
  assumes "pc (model_manager (manager s)) = Some client" and "list_indexes e = Inr names"
    and "idx \<notin> set names"
    and "create_index e idx VECTOR_DIMENSION VECTOR_METRIC PINECONE_CLOUD PINECONE_REGION = None"
  shows "(\<exists>evs. trace (snd (setup_pinecone_index e idx s)) =
             trace s @ [ListIndexes,
               CreateIndex idx VECTOR_DIMENSION VECTOR_METRIC PINECONE_CLOUD PINECONE_REGION]
               @ evs \<and>
           set evs \<subseteq> {DescribeIndex idx, Sleep 1} \<and>
           count_list evs (DescribeIndex idx) \<le> 30 \<and> count_list evs (Sleep 1) \<le> 30) \<and>
         (\<forall>k<30. describe_index e idx k = Inr True \<and>
                  (\<forall>j<k. describe_index e idx j = Inr False) \<longrightarrow>
            setup_pinecone_index e idx s =
              (Inr (True, ''created''),
               s\<lparr>trace := trace s @ [ListIndexes,
                   CreateIndex idx VECTOR_DIMENSION VECTOR_METRIC PINECONE_CLOUD PINECONE_REGION]
                   @ polls idx k @ [DescribeIndex idx]\<rparr>)) \<and>
         ((\<forall>j<30. describe_index e idx j = Inr False) \<longrightarrow>
            setup_pinecone_index e idx s =
              (Inl (Exception ''Error setting up Pinecone index: Pinecone index creation timeout''),
               s\<lparr>trace := trace s @ [ListIndexes,
                   CreateIndex idx VECTOR_DIMENSION VECTOR_METRIC PINECONE_CLOUD PINECONE_REGION]
                   @ polls idx 30\<rparr>))"
proof (intro conjI allI impI)
  let ?s1 = "s\<lparr>trace := trace s @ [ListIndexes,
      CreateIndex idx VECTOR_DIMENSION VECTOR_METRIC PINECONE_CLOUD PINECONE_REGION]\<rparr>"
  note su = setup_creates[OF assms]
  from wait_bounded[of e idx 0 30 ?s1] obtain evs where
    a: "snd (wait_until_ready e idx 0 30 ?s1) = ?s1\<lparr>trace := trace ?s1 @ evs\<rparr>"
       "set evs \<subseteq> {DescribeIndex idx, Sleep 1}"
       "count_list evs (DescribeIndex idx) \<le> 30" "count_list evs (Sleep 1) \<le> 30"
    by blast
  have "snd (setup_pinecone_index e idx s) = snd (wait_until_ready e idx 0 30 ?s1)"
    unfolding su
    by (cases "wait_until_ready e idx 0 30 ?s1")
       (auto simp: try_except_def io_bind_def io_return_def io_raise_def split: sum.splits)
  then have "trace (snd (setup_pinecone_index e idx s)) =
      trace s @ [ListIndexes,
        CreateIndex idx VECTOR_DIMENSION VECTOR_METRIC PINECONE_CLOUD PINECONE_REGION] @ evs"
    using a(1) by simp
  then show "\<exists>evs. trace (snd (setup_pinecone_index e idx s)) =
             trace s @ [ListIndexes,
               CreateIndex idx VECTOR_DIMENSION VECTOR_METRIC PINECONE_CLOUD PINECONE_REGION]
               @ evs \<and>
           set evs \<subseteq> {DescribeIndex idx, Sleep 1} \<and>
           count_list evs (DescribeIndex idx) \<le> 30 \<and> count_list evs (Sleep 1) \<le> 30"
    using a(2-4) by blast
next
  fix k :: nat
  assume k: "k < 30"
    and r: "describe_index e idx k = Inr True \<and> (\<forall>j<k. describe_index e idx j = Inr False)"
  have "wait_until_ready e idx 0 30
          (s\<lparr>trace := trace s @ [ListIndexes,
             CreateIndex idx VECTOR_DIMENSION VECTOR_METRIC PINECONE_CLOUD PINECONE_REGION]\<rparr>)
        = (Inr (), s\<lparr>trace := trace s @ [ListIndexes,
             CreateIndex idx VECTOR_DIMENSION VECTOR_METRIC PINECONE_CLOUD PINECONE_REGION]\<rparr>
             \<lparr>trace := trace (s\<lparr>trace := trace s @ [ListIndexes,
             CreateIndex idx VECTOR_DIMENSION VECTOR_METRIC PINECONE_CLOUD PINECONE_REGION]\<rparr>)
               @ polls idx k @ [DescribeIndex idx]\<rparr>)"
    by (rule wait_ready_at[OF k]) (use r in simp_all)
  then show "setup_pinecone_index e idx s =
              (Inr (True, ''created''),
               s\<lparr>trace := trace s @ [ListIndexes,
                   CreateIndex idx VECTOR_DIMENSION VECTOR_METRIC PINECONE_CLOUD PINECONE_REGION]
                   @ polls idx k @ [DescribeIndex idx]\<rparr>)"
    unfolding setup_creates[OF assms]
    by (simp add: try_except_def io_bind_def io_return_def)
next
  assume r: "\<forall>j<30. describe_index e idx j = Inr False"
  have "wait_until_ready e idx 0 30
          (s\<lparr>trace := trace s @ [ListIndexes,
             CreateIndex idx VECTOR_DIMENSION VECTOR_METRIC PINECONE_CLOUD PINECONE_REGION]\<rparr>)
        = (Inl (Exception ''Pinecone index creation timeout''),
           s\<lparr>trace := trace s @ [ListIndexes,
             CreateIndex idx VECTOR_DIMENSION VECTOR_METRIC PINECONE_CLOUD PINECONE_REGION]\<rparr>
             \<lparr>trace := trace (s\<lparr>trace := trace s @ [ListIndexes,
             CreateIndex idx VECTOR_DIMENSION VECTOR_METRIC PINECONE_CLOUD PINECONE_REGION]\<rparr>)
               @ polls idx 30\<rparr>)"
    by (rule wait_never_ready) (use r in simp)
  then show "setup_pinecone_index e idx s =
              (Inl (Exception ''Error setting up Pinecone index: Pinecone index creation timeout''),
               s\<lparr>trace := trace s @ [ListIndexes,
                   CreateIndex idx VECTOR_DIMENSION VECTOR_METRIC PINECONE_CLOUD PINECONE_REGION]
                   @ polls idx 30\<rparr>)"
    unfolding setup_creates[OF assms]
    by (simp add: try_except_def io_bind_def io_return_def io_raise_def)
qed

theorem readiness_wait_is_bounded_witness:
  "pc (model_manager (manager example_state)) = Some Pinecone \<and>
   list_indexes example_env = Inr [] \<and>
   create_index example_env ''pdf-chatbot-index'' VECTOR_DIMENSION VECTOR_METRIC
     PINECONE_CLOUD PINECONE_REGION = None \<and>
   describe_index example_env ''pdf-chatbot-index'' 0 = Inr False \<and>
   describe_index example_env ''pdf-chatbot-index'' 1 = Inr False \<and>
   describe_index example_env ''pdf-chatbot-index'' 2 = Inr True \<and>
   setup_pinecone_index example_env ''pdf-chatbot-index'' example_state =
     (Inr (True, ''created''),
      example_state\<lparr>trace := trace example_state @
        [ListIndexes,
         CreateIndex ''pdf-chatbot-index'' VECTOR_DIMENSION VECTOR_METRIC PINECONE_CLOUD
           PINECONE_REGION]
        @ polls ''pdf-chatbot-index'' 2 @ [DescribeIndex ''pdf-chatbot-index'']\<rparr>) \<and>
   polls ''pdf-chatbot-index'' 2 =
     [DescribeIndex ''pdf-chatbot-index'', Sleep 1, DescribeIndex ''pdf-chatbot-index'', Sleep 1] \<and>
   setup_pinecone_index never_ready_env ''pdf-chatbot-index'' example_state =
     (Inl (Exception ''Error setting up Pinecone index: Pinecone index creation timeout''),
      example_state\<lparr>trace := trace example_state @
        [ListIndexes,
         CreateIndex ''pdf-chatbot-index'' VECTOR_DIMENSION VECTOR_METRIC PINECONE_CLOUD
           PINECONE_REGION]
        @ polls ''pdf-chatbot-index'' 30\<rparr>) \<and>
   count_list (polls ''pdf-chatbot-index'' 30) (DescribeIndex ''pdf-chatbot-index'') = 30 \<and>
   count_list (polls ''pdf-chatbot-index'' 30) (Sleep 1) = 30"
proof -
  have a: "pc (model_manager (manager example_state)) = Some Pinecone"
    by (simp add: example_state_def example_manager_def)
  have b: "list_indexes example_env = Inr []" by (simp add: example_env_sel)
  have b': "list_indexes never_ready_env = Inr []" by (simp add: never_ready_env_sel)
  have c: "''pdf-chatbot-index'' \<notin> set []" by simp
  have d: "create_index example_env ''pdf-chatbot-index'' VECTOR_DIMENSION VECTOR_METRIC
     PINECONE_CLOUD PINECONE_REGION = None" by (simp add: example_env_sel)
  have d': "create_index never_ready_env ''pdf-chatbot-index'' VECTOR_DIMENSION VECTOR_METRIC
     PINECONE_CLOUD PINECONE_REGION = None" by (simp add: never_ready_env_sel)
  have p: "describe_index example_env ''pdf-chatbot-index'' 0 = Inr False"
    "describe_index example_env ''pdf-chatbot-index'' 1 = Inr False"
    "describe_index example_env ''pdf-chatbot-index'' 2 = Inr True"
    by (simp_all add: example_env_sel)
  have k: "(2::nat) < 30" by simp
  have r: "describe_index example_env ''pdf-chatbot-index'' 2 = Inr True \<and>
           (\<forall>j<2. describe_index example_env ''pdf-chatbot-index'' j = Inr False)"
    by (simp add: example_env_sel)
  have n: "\<forall>j<30. describe_index never_ready_env ''pdf-chatbot-index'' j = Inr False"
    by (simp add: never_ready_env_sel)
  note w1 = readiness_wait_is_bounded[OF a b c d, THEN conjunct2, THEN conjunct1,
      rule_format, OF k r]
  note w2 = readiness_wait_is_bounded[OF a b' c d', THEN conjunct2, THEN conjunct2,
      THEN mp, OF n]
  have q: "polls ''pdf-chatbot-index'' 2 =
     [DescribeIndex ''pdf-chatbot-index'', Sleep 1, DescribeIndex ''pdf-chatbot-index'', Sleep 1]"
    by (simp add: polls_def numeral_2_eq_2)
  have l: "count_list (polls ''pdf-chatbot-index'' 30) (DescribeIndex ''pdf-chatbot-index'') = 30"
    "count_list (polls ''pdf-chatbot-index'' 30) (Sleep 1) = 30"
    by (rule count_polls)+
  show ?thesis
    by (intro conjI a b d p w1 w2 q l)
qed

text \<open>
  C7, as the code has it. When the upload has been saved to the temporary file, ingestion
  returns, on the success path and on every failure path alike, and the temporary file
  is gone afterwards if \<open>os.unlink\<close> succeeds; if \<open>os.unlink\<close> fails, the \<open>finally\<close>
  block swallows the error and the file stays. No other file is touched.
\<close>

theorem temp_file_removed_unless_unlink_fails:
  assumes "tmp_file e = Inr path" and "tmp_write e path pdf = None"
  shows "\<exists>ok msg s'.
           process_pdf e pdf idx cb s = (Inr (ok, msg), s') \<and>
           files s' = (if os_unlink e path = None then (files s)(path := None)
                       else (files s)(path \<mapsto> pdf))"
proof -
  from process_pdf_shape[OF assms, of idx cb s] obtain ok msg s2 s3 where
    a: "steps (configured_create idx) (saved s path pdf) s2"
       "files s3 = (if os_unlink e path = None then (files s2)(path := None) else files s2)"
       "process_pdf e pdf idx cb s = (Inr (ok, msg), s3)"
    by blast
  have "files s2 = (files s)(path \<mapsto> pdf)" using a(1) by (simp add: steps_def saved_def)
  then have "files s3 = (if os_unlink e path = None then (files s)(path := None)
                        else (files s)(path \<mapsto> pdf))"
    using a(2) by simp
  then show ?thesis using a(3) by blast
qed

theorem temp_file_removed_unless_unlink_fails_witness:
  "tmp_file example_env = Inr ''/tmp/tmpk3x9.pdf'' \<and>
   tmp_write example_env ''/tmp/tmpk3x9.pdf'' [37, 80, 68, 70] = None \<and>
   os_unlink example_env ''/tmp/tmpk3x9.pdf'' = None \<and>
   (\<exists>ok msg s'.
      process_pdf example_env [37, 80, 68, 70] ''pdf-chatbot-index'' None example_state =
        (Inr (ok, msg), s') \<and>
      files s' ''/tmp/tmpk3x9.pdf'' = None)"
proof -
  have a: "tmp_file example_env = Inr ''/tmp/tmpk3x9.pdf''" by (simp add: example_env_sel)
  have b: "tmp_write example_env ''/tmp/tmpk3x9.pdf'' [37, 80, 68, 70] = None"
    by (simp add: example_env_sel)
  have c: "os_unlink example_env ''/tmp/tmpk3x9.pdf'' = None" by (simp add: example_env_sel)
  from temp_file_removed_unless_unlink_fails[OF a b, of "''pdf-chatbot-index''" None
      example_state]
  obtain ok msg s' where
    w: "process_pdf example_env [37, 80, 68, 70] ''pdf-chatbot-index'' None example_state =
          (Inr (ok, msg), s')"
       "files s' = (if os_unlink example_env ''/tmp/tmpk3x9.pdf'' = None
                    then (files example_state)(''/tmp/tmpk3x9.pdf'' := None)
                    else (files example_state)(''/tmp/tmpk3x9.pdf'' \<mapsto> [37, 80, 68, 70]))"
    by blast
  have "files s' ''/tmp/tmpk3x9.pdf'' = None" using w(2) c by simp
  then have "\<exists>ok msg s'.
      process_pdf example_env [37, 80, 68, 70] ''pdf-chatbot-index'' None example_state =
        (Inr (ok, msg), s') \<and>
      files s' ''/tmp/tmpk3x9.pdf'' = None"
    using w(1) by blast
  then show ?thesis using a b c by (intro conjI)
qed

text \<open>
  C7 as stated fails: when the file cannot be removed, ingestion still reports success
  and the temporary file is left on disk.
\<close>

theorem temp_file_left_when_unlink_fails_counterexample:
  "fst (process_pdf locked_env [37, 80, 68, 70] ''pdf-chatbot-index'' None example_state) =
     Inr (True, ''PDF processed successfully! Created 1 chunks from 2 pages.'') \<and>
   files (snd (process_pdf locked_env [37, 80, 68, 70] ''pdf-chatbot-index'' None
                 example_state)) ''/tmp/tmpk3x9.pdf'' = Some [37, 80, 68, 70]"
proof -
  have d: "describe_index (example_env\<lparr>os_unlink := \<lambda>path. Some (OSError ''Permission denied'')\<rparr>)
             = describe_index example_env"
    by simp
  show ?thesis
    by (simp add: pdf_defs io_defs ready_at_third_poll[OF d] locked_env_def example_env_sel
        example_state_def example_manager_def TEXT_CHUNK_SIZE_def TEXT_CHUNK_OVERLAP_def
        TEXT_SEPARATORS_def VECTOR_DIMENSION_def VECTOR_METRIC_def PINECONE_CLOUD_def
        PINECONE_REGION_def digit_char_def str_nat.simps)
qed

text \<open>
  C6 at a failing input. The upload is written to the temporary file before the \<open>try\<close>
  block of \<open>process_pdf\<close>; when that write fails (here: the disk is full), the error
  leaves \<open>process_pdf\<close> as an exception instead of a pair of flag and message, and the
  file just created stays on disk.
\<close>

theorem failed_save_escapes_process_pdf:
  "fst (process_pdf full_disk_env [37, 80, 68, 70] ''pdf-chatbot-index'' None example_state) =
     Inl (OSError ''No space left on device'') \<and>
   trace (snd (process_pdf full_disk_env [37, 80, 68, 70] ''pdf-chatbot-index'' None
                 example_state)) = [NamedTemporaryFile ''/tmp/tmpk3x9.pdf''] \<and>
   files (snd (process_pdf full_disk_env [37, 80, 68, 70] ''pdf-chatbot-index'' None
                 example_state)) ''/tmp/tmpk3x9.pdf'' = Some []"
  by (simp add: process_pdf_def save_upload_def io_bind_def Let_def full_disk_env_def
        example_env_sel example_state_def)

section \<open>Properties of the session state\<close>

text \<open>
  C9. Whatever the session, when the prompt the widgets select differs from the one of
  the session, \<open>render_system_prompt_selection\<close> stores it, empties the conversation log
  and the conversation memory, and leaves the model manager (with the model handle), the
  PDF processor (with the vector store reference), the RAG setting and the other flags
  as they were.
\<close>

theorem persona_change_clears_history:
  assumes "selected_prompt opt txt = Inr p" and "p \<noteq> system_prompt ss"
  shows "\<exists>ss'. render_system_prompt_selection ss opt txt = Inr ss' \<and>
           system_prompt ss' = p \<and> messages ss' = [] \<and>
           memory (chat_manager ss') = [] \<and>
           model_manager (chat_manager ss') = model_manager (chat_manager ss) \<and>
           pdf_processor (chat_manager ss') = pdf_processor (chat_manager ss) \<and>
           use_rag ss' = use_rag ss \<and>
           selected_model_type ss' = selected_model_type ss \<and>
           processed ss' = processed ss \<and>
           model_initialized ss' = model_initialized ss"
  using assms by (simp add: render_system_prompt_selection_def clear_memory_def)

theorem persona_change_clears_history_witness:
  "length (messages example_session) = 2 \<and>
   length (memory (chat_manager example_session)) = 2 \<and>
   (\<exists>ss'. render_system_prompt_selection example_session ''Technical Expert'' [] = Inr ss' \<and>
      system_prompt ss' =
        ''You are a technical expert. Provide detailed, accurate technical information and explanations.'' \<and>
      messages ss' = [] \<and> memory (chat_manager ss') = [] \<and>
      current_model (model_manager (chat_manager ss')) = Some AzureChatOpenAI \<and>
      vectorstore (pdf_processor (chat_manager ss')) = None \<and>
      use_rag ss' = True)"
proof -
  have a: "selected_prompt ''Technical Expert'' [] =
             Inr ''You are a technical expert. Provide detailed, accurate technical information and explanations.''"
    by (simp add: selected_prompt_def SYSTEM_PROMPTS_def)
  have b: "''You are a technical expert. Provide detailed, accurate technical information and explanations.''
             \<noteq> system_prompt example_session"
    by (simp add: example_session_def)
  from persona_change_clears_history[OF a b] show ?thesis
    by (auto simp: example_session_def example_manager_def)
qed

section \<open>Properties of answering\<close>

text \<open>
  C4. With a model initialised and no vector store in the processor, \<open>get_response\<close>
  with \<open>use_rag\<close> set returns the fixed guidance message and no sources, for every
  question and persona, and leaves the state as it was: the trace has not grown, so no
  service (the generation provider among them) has been called.
\<close>

theorem rag_without_store_returns_guidance:
  assumes "is_initialized (model_manager (manager s))"
    and "vectorstore (pdf_processor (manager s)) = None"
  shows "get_response e q p True s =
           (Inr (''RAG is enabled but no PDF has been processed. Please process a PDF first or disable RAG.'',
                 []), s)"
  using assms by (simp add: get_response_def io_defs)

theorem rag_without_store_returns_guidance_witness:
  "is_initialized (model_manager (manager example_state)) \<and>
   vectorstore (pdf_processor (manager example_state)) = None \<and>
   get_response example_env ''What is in the document?'' ''You are a technical expert.'' True
     example_state =
       (Inr (''RAG is enabled but no PDF has been processed. Please process a PDF first or disable RAG.'',
             []), example_state)"
proof -
  have a: "is_initialized (model_manager (manager example_state))"
    by (simp add: is_initialized_def example_state_def example_manager_def)
  have b: "vectorstore (pdf_processor (manager example_state)) = None"
    by (simp add: example_state_def example_manager_def)
  from rag_without_store_returns_guidance[OF a b] a b show ?thesis by simp
qed

text \<open>
  C5. In the RAG branch (model initialised, vector store present), when the first attempt
  fails, whether in building the chain over the persona template or in invoking it with
  the persona, \<open>get_response\<close> makes one more attempt and no further one: it builds
  one chain with no prompt of the application's and invokes it at most once, with the
  question alone. If building or invoking that chain fails, the answer is the text
  \<open>RAG Error:\<close> followed by the message of that error, with no sources, and nothing
  is raised; if it succeeds, the answer is the one of the retry.
\<close>

theorem failed_rag_attempt_retried_once_without_persona:
  assumes "is_initialized (model_manager (manager s))"
    and "vectorstore (pdf_processor (manager s)) = Some store"
    and "rag_attempt e q p s = (Inl x, s1)"
  shows "(trace s1 = trace s @ [FromChainType (persona_chain s store)] \<or>
          trace s1 = trace s @ [FromChainType (persona_chain s store),
             QAInvoke (persona_chain s store) [(''query'', q), (''system_prompt'', p)]]) \<and>
         qa_prompt (persona_chain s store) = Some prompt_template \<and>
         qa_prompt (plain_chain s store) = None \<and>
         (\<forall>y. from_chain_type e (plain_chain s store) = Some y \<longrightarrow>
            get_response e q p True s =
              (Inr (''RAG Error: '' @ str_exn y, []),
               s1\<lparr>trace := trace s1 @ [FromChainType (plain_chain s store)]\<rparr>)) \<and>
         (\<forall>y. from_chain_type e (plain_chain s store) = None \<and>
              qa_invoke e (plain_chain s store) [(''query'', q)] = Inl y \<longrightarrow>
            get_response e q p True s =
              (Inr (''RAG Error: '' @ str_exn y, []),
               s1\<lparr>trace := trace s1 @ [FromChainType (plain_chain s store),
                    QAInvoke (plain_chain s store) [(''query'', q)]]\<rparr>)) \<and>
         (\<forall>r. from_chain_type e (plain_chain s store) = None \<and>
              qa_invoke e (plain_chain s store) [(''query'', q)] = Inr r \<longrightarrow>
            get_response e q p True s =
              (Inr (answer_of r),
               s1\<lparr>trace := trace s1 @ [FromChainType (plain_chain s store),
                    QAInvoke (plain_chain s store) [(''query'', q)]]\<rparr>))"
proof -
  from rag_attempt_effect[OF assms(2,3)] have
    m: "manager s1 = manager s" and
    t: "trace s1 = trace s @ [FromChainType (persona_chain s store)] \<or>
        trace s1 = trace s @ [FromChainType (persona_chain s store),
           QAInvoke (persona_chain s store) [(''query'', q), (''system_prompt'', p)]]"
    by simp_all
  have v: "vectorstore (pdf_processor (manager s1)) = Some store" using m assms(2) by simp
  have pc: "plain_chain s1 store = plain_chain s store" using m by (simp add: plain_chain_def)
  note g = get_response_after_failed_attempt[OF assms]
  note f = rag_fallback_cases[OF v, of e q, unfolded pc]
  show ?thesis
  proof (intro conjI allI impI)
    show "trace s1 = trace s @ [FromChainType (persona_chain s store)] \<or>
          trace s1 = trace s @ [FromChainType (persona_chain s store),
             QAInvoke (persona_chain s store) [(''query'', q), (''system_prompt'', p)]]"
      by (rule t)
    show "qa_prompt (persona_chain s store) = Some prompt_template"
      by (simp add: persona_chain_def)
    show "qa_prompt (plain_chain s store) = None"
      by (simp add: plain_chain_def)
  next
    fix y assume "from_chain_type e (plain_chain s store) = Some y"
    then show "get_response e q p True s =
              (Inr (''RAG Error: '' @ str_exn y, []),
               s1\<lparr>trace := trace s1 @ [FromChainType (plain_chain s store)]\<rparr>)"
      by (simp add: g f)
  next
    fix y assume "from_chain_type e (plain_chain s store) = None \<and>
              qa_invoke e (plain_chain s store) [(''query'', q)] = Inl y"
    then show "get_response e q p True s =
              (Inr (''RAG Error: '' @ str_exn y, []),
               s1\<lparr>trace := trace s1 @ [FromChainType (plain_chain s store),
                    QAInvoke (plain_chain s store) [(''query'', q)]]\<rparr>)"
      by (simp add: g f)
  next
    fix r assume "from_chain_type e (plain_chain s store) = None \<and>
              qa_invoke e (plain_chain s store) [(''query'', q)] = Inr r"
    then show "get_response e q p True s =
              (Inr (answer_of r),
               s1\<lparr>trace := trace s1 @ [FromChainType (plain_chain s store),
                    QAInvoke (plain_chain s store) [(''query'', q)]]\<rparr>)"
      by (simp add: g f)
  qed
qed

theorem failed_rag_attempt_retried_once_without_persona_witness:
  "is_initialized (model_manager (manager populated_state)) \<and>
   vectorstore (pdf_processor (manager populated_state)) =
     Some (PineconeVectorStore ''pdf-chatbot-index'') \<and>
   rag_attempt example_env ''What is in it?'' ''You are a technical expert.'' populated_state =
     (Inl (ValueError ''Missing some input keys''),
      populated_state\<lparr>trace := trace populated_state @
        [FromChainType
           (persona_chain populated_state (PineconeVectorStore ''pdf-chatbot-index''))]\<rparr>) \<and>
   get_response example_env ''What is in it?'' ''You are a technical expert.'' True
       populated_state =
     (Inr (''RAG Error: Rate limit reached'', []),
      populated_state\<lparr>trace :=
        [FromChainType
           (persona_chain populated_state (PineconeVectorStore ''pdf-chatbot-index'')),
         FromChainType
           (plain_chain populated_state (PineconeVectorStore ''pdf-chatbot-index'')),
         QAInvoke (plain_chain populated_state (PineconeVectorStore ''pdf-chatbot-index''))
           [(''query'', ''What is in it?'')]]\<rparr>) \<and>
   get_response answering_env ''What is in it?'' ''You are a technical expert.'' True
       populated_state =
     (Inr (''It is a greeting.'', [Document [72, 105, 10, 72, 111]]),
      populated_state\<lparr>trace :=
        [FromChainType
           (persona_chain populated_state (PineconeVectorStore ''pdf-chatbot-index'')),
         FromChainType
           (plain_chain populated_state (PineconeVectorStore ''pdf-chatbot-index'')),
         QAInvoke (plain_chain populated_state (PineconeVectorStore ''pdf-chatbot-index''))
           [(''query'', ''What is in it?'')]]\<rparr>)"
proof -
  let ?store = "PineconeVectorStore ''pdf-chatbot-index''"
  let ?q = "''What is in it?''"
  let ?p = "''You are a technical expert.''"
  have t0: "trace populated_state = []"
    by (simp add: populated_state_def example_state_def)
  have a1: "rag_attempt example_env ?q ?p populated_state =
     (Inl (ValueError ''Missing some input keys''),
      populated_state\<lparr>trace := trace populated_state @
        [FromChainType (persona_chain populated_state ?store)]\<rparr>)"
    by (rule refused_persona_attempt) simp
  have a2: "rag_attempt answering_env ?q ?p populated_state =
     (Inl (ValueError ''Missing some input keys''),
      populated_state\<lparr>trace := trace populated_state @
        [FromChainType (persona_chain populated_state ?store)]\<rparr>)"
    by (rule refused_persona_attempt) (simp add: answering_env_def)
  have f1: "from_chain_type example_env (plain_chain populated_state ?store) = None \<and>
            qa_invoke example_env (plain_chain populated_state ?store) [(''query'', ?q)] =
              Inl (Exception ''Rate limit reached'')"
    by (simp add: example_env_sel plain_chain_def)
  have f2: "from_chain_type answering_env (plain_chain populated_state ?store) = None \<and>
            qa_invoke answering_env (plain_chain populated_state ?store) [(''query'', ?q)] =
              Inr \<lparr>result = ''It is a greeting.'',
                   source_documents = Some [Document [72, 105, 10, 72, 111]]\<rparr>"
    by (simp add: answering_env_def example_env_sel plain_chain_def)
  note w1 = failed_rag_attempt_retried_once_without_persona
      [OF populated_state_sel a1, THEN conjunct2, THEN conjunct2, THEN conjunct2,
       THEN conjunct2, THEN conjunct1, THEN spec, THEN mp, OF f1]
  note w2 = failed_rag_attempt_retried_once_without_persona
      [OF populated_state_sel a2, THEN conjunct2, THEN conjunct2, THEN conjunct2,
       THEN conjunct2, THEN conjunct2, THEN spec, THEN mp, OF f2]
  have g1: "get_response example_env ?q ?p True populated_state =
     (Inr (''RAG Error: Rate limit reached'', []),
      populated_state\<lparr>trace :=
        [FromChainType (persona_chain populated_state ?store),
         FromChainType (plain_chain populated_state ?store),
         QAInvoke (plain_chain populated_state ?store) [(''query'', ?q)]]\<rparr>)"
    using w1 by (simp add: t0)
  have g2: "get_response answering_env ?q ?p True populated_state =
     (Inr (''It is a greeting.'', [Document [72, 105, 10, 72, 111]]),
      populated_state\<lparr>trace :=
        [FromChainType (persona_chain populated_state ?store),
         FromChainType (plain_chain populated_state ?store),
         QAInvoke (plain_chain populated_state ?store) [(''query'', ?q)]]\<rparr>)"
    using w2 by (simp add: t0 answer_of_def)
  show ?thesis
    by (intro conjI populated_state_sel a1 g1 g2)
qed

end
